theory Spec2Isabelle
  imports Main "HOL-Library.Word"
begin

unbundle bit_operations_syntax

section \<open>Python values\<close>

text \<open>
  A Python \<open>str\<close> is a sequence of Unicode code points and \<open>len\<close>, slicing and
  iteration count code points; \<open>bytes\<close> is a sequence of octets. String literals of
  the source are ASCII and are written through \<open>ascii\<close>.
\<close>

type_synonym codepoint = nat
type_synonym pystr = "codepoint list"
type_synonym byte = "8 word"
type_synonym bytes = "byte list"

definition ascii :: "string \<Rightarrow> pystr" where
  "ascii s = map of_char s"

definition ascii_bytes :: "string \<Rightarrow> bytes" where
  "ascii_bytes s = map of_char s"

text \<open>The exceptions that the modelled code and the library calls it makes can raise.\<close>

datatype py_error =
    OverflowError
  | UnicodeEncodeError
  | AttributeError
  | FileNotFoundError
  | SameFileError
  | ImagingError
  | StructError

subsection \<open>Methods of \<open>str\<close>\<close>

text \<open>
  \<open>str.isspace\<close> for one character: the code points that CPython classifies as
  whitespace (bidirectional type WS, B or S, or category Zs).
\<close>

definition isspace :: "codepoint \<Rightarrow> bool" where
  "isspace c \<longleftrightarrow>
     (0x09 \<le> c \<and> c \<le> 0x0D) \<or> (0x1C \<le> c \<and> c \<le> 0x20) \<or> c = 0x85 \<or> c = 0xA0 \<or>
     c = 0x1680 \<or> (0x2000 \<le> c \<and> c \<le> 0x200A) \<or> c = 0x2028 \<or> c = 0x2029 \<or>
     c = 0x202F \<or> c = 0x205F \<or> c = 0x3000"

text \<open>\<open>s.strip()\<close>: leading and trailing whitespace removed.\<close>

definition strip :: "pystr \<Rightarrow> pystr" where
  "strip s = rev (dropWhile isspace (rev (dropWhile isspace s)))"

text \<open>
  \<open>s.split(sep)\<close> for a separator of one character: every occurrence of the separator
  ends a piece, so \<open>k\<close> separators give \<open>k + 1\<close> pieces and the empty string gives one
  empty piece.
\<close>

fun split :: "codepoint \<Rightarrow> pystr \<Rightarrow> pystr list" where
  "split sep [] = [[]]"
| "split sep (c # cs) =
     (if c = sep then [] # split sep cs
      else (case split sep cs of
              [] \<Rightarrow> [[c]]
            | t # ts \<Rightarrow> (c # t) # ts))"

text \<open>\<open>sep.join(xs)\<close>.\<close>

fun join :: "pystr \<Rightarrow> pystr list \<Rightarrow> pystr" where
  "join sep [] = []"
| "join sep [x] = x"
| "join sep (x # y # ys) = x @ sep @ join sep (y # ys)"

text \<open>\<open>s.replace(a, b)\<close> for single characters \<open>a\<close> and \<open>b\<close>.\<close>

definition replace_char :: "codepoint \<Rightarrow> codepoint \<Rightarrow> pystr \<Rightarrow> pystr" where
  "replace_char a b s = map (\<lambda>c. if c = a then b else c) s"

text \<open>
  \<open>c.isalnum()\<close>. On ASCII the alphanumeric characters are the digits and the letters.
  Beyond ASCII the answer is read from the Unicode character database of the
  interpreter, which is the parameter \<open>ucd\<close>.
\<close>

definition isalnum :: "(codepoint \<Rightarrow> bool) \<Rightarrow> codepoint \<Rightarrow> bool" where
  "isalnum ucd c \<longleftrightarrow>
     (if c < 0x80
      then (0x30 \<le> c \<and> c \<le> 0x39) \<or> (0x41 \<le> c \<and> c \<le> 0x5A) \<or> (0x61 \<le> c \<and> c \<le> 0x7A)
      else ucd c)"

subsection \<open>JSON values and the metadata dictionary\<close>

text \<open>
  \<open>metadata\<close> is the \<open>dict\<close> that the request body carries. A value is a string, or
  any other JSON value (null, a number, a boolean, a list, an object). Of a value that
  is not a string the modelled code observes two things only: that it has none of the
  methods of \<open>str\<close>, and the text that an f-string renders for it, which \<open>PyOther\<close>
  carries.
\<close>

datatype pyval = PyStr pystr | PyOther pystr

type_synonym metadata = "pystr \<rightharpoonup> pyval"

text \<open>\<open>metadata.get(key, default)\<close>.\<close>

definition get :: "metadata \<Rightarrow> string \<Rightarrow> string \<Rightarrow> pyval" where
  "get m key dflt = (case m (ascii key) of None \<Rightarrow> PyStr (ascii dflt) | Some v \<Rightarrow> v)"

text \<open>The text an f-string puts in place of \<open>{v}\<close>.\<close>

fun format :: "pyval \<Rightarrow> pystr" where
  "format (PyStr s) = s"
| "format (PyOther r) = r"

text \<open>Sequencing of calls that may raise: the first exception ends the sequence.\<close>

definition and_then :: "'e + 'a \<Rightarrow> ('a \<Rightarrow> 'e + 'b) \<Rightarrow> 'e + 'b" where
  "and_then r f = (case r of Inl e \<Rightarrow> Inl e | Inr x \<Rightarrow> f x)"

subsection \<open>Encoding to bytes\<close>

text \<open>
  \<open>s.encode('utf-8')\<close> with the default strict error handler: one to four bytes for each
  code point, and \<open>UnicodeEncodeError\<close> for a surrogate. A code point of a Python
  string is below \<open>0x110000\<close>.
\<close>

definition utf8_char :: "codepoint \<Rightarrow> py_error + bytes" where
  "utf8_char c =
     (if c < 0x80 then Inr [of_nat c]
      else if c < 0x800 then
        Inr [of_nat (0xC0 + c div 0x40), of_nat (0x80 + c mod 0x40)]
      else if 0xD800 \<le> c \<and> c \<le> 0xDFFF then Inl UnicodeEncodeError
      else if c < 0x10000 then
        Inr [of_nat (0xE0 + c div 0x1000), of_nat (0x80 + c div 0x40 mod 0x40),
             of_nat (0x80 + c mod 0x40)]
      else
        Inr [of_nat (0xF0 + c div 0x40000), of_nat (0x80 + c div 0x1000 mod 0x40),
             of_nat (0x80 + c div 0x40 mod 0x40), of_nat (0x80 + c mod 0x40)])"

fun encode_utf8 :: "pystr \<Rightarrow> py_error + bytes" where
  "encode_utf8 [] = Inr []"
| "encode_utf8 (c # cs) =
     and_then (utf8_char c) (\<lambda>b. and_then (encode_utf8 cs) (\<lambda>bs. Inr (b @ bs)))"

text \<open>\<open>s.encode('latin-1', 'strict')\<close>: one byte for each code point below 256.\<close>

fun encode_latin1 :: "pystr \<Rightarrow> py_error + bytes" where
  "encode_latin1 [] = Inr []"
| "encode_latin1 (c # cs) =
     (if c < 0x100 then and_then (encode_latin1 cs) (\<lambda>bs. Inr (of_nat c # bs))
      else Inl UnicodeEncodeError)"

text \<open>\<open>v.encode('utf-8')\<close> for a value of the dictionary: only a \<open>str\<close> has the method.\<close>

fun encode_value :: "pyval \<Rightarrow> py_error + bytes" where
  "encode_value (PyStr s) = encode_utf8 s"
| "encode_value (PyOther r) = Inl AttributeError"

text \<open>\<open>n.to_bytes(2, 'big')\<close> for a non-negative \<open>n\<close>: \<open>OverflowError\<close> from \<open>65536\<close> on.\<close>

definition to_bytes_2_big :: "nat \<Rightarrow> py_error + bytes" where
  "to_bytes_2_big n =
     (if n < 0x10000 then Inr [of_nat (n div 0x100), of_nat (n mod 0x100)]
      else Inl OverflowError)"

section \<open>The XMP packet (\<open>create_xmp_packet\<close>)\<close>

text \<open>
  The literal text of the f-string, cut at its twelve replacement fields:
  \<open>xmp_lit_f\<close> is the text that precedes the field \<open>f\<close>. The two source files differ
  in the first piece only: \<open>app.py\<close> declares one more namespace.
\<close>

definition xmp_lit_title_index :: pystr where
  \<open>xmp_lit_title_index = ascii
    (''<?xpacket begin="" id="W5M0MpCehiHzreSzNTczkc9d"?>\<newline>'' @
     ''<x:xmpmeta xmlns:x="adobe:ns:meta/" x:xmptk="GroundSwell Metadata Tool">\<newline>'' @
     ''    <rdf:RDF xmlns:rdf="http://www.w3.org/1999/02/22-rdf-syntax-ns#">\<newline>'' @
     ''        <rdf:Description rdf:about=""\<newline>'' @
     ''            xmlns:dc="http://purl.org/dc/elements/1.1/"\<newline>'' @
     ''            xmlns:xmp="http://ns.adobe.com/xap/1.0/"\<newline>'' @
     ''            xmlns:xmpRights="http://ns.adobe.com/xap/1.0/rights/"\<newline>'' @
     ''            xmlns:photoshop="http://ns.adobe.com/photoshop/1.0/"\<newline>'' @
     ''            xmlns:Iptc4xmpCore="http://iptc.org/std/Iptc4xmpCore/1.0/xmlns/">\<newline>'' @
     ''\<newline>'' @
     ''            <dc:title>\<newline>'' @
     ''                <rdf:Alt>\<newline>'' @
     ''                    <rdf:li xml:lang="x-default">'')\<close>

definition xmp_lit_title_app :: pystr where
  \<open>xmp_lit_title_app = ascii
    (''<?xpacket begin="" id="W5M0MpCehiHzreSzNTczkc9d"?>\<newline>'' @
     ''<x:xmpmeta xmlns:x="adobe:ns:meta/" x:xmptk="GroundSwell Metadata Tool">\<newline>'' @
     ''    <rdf:RDF xmlns:rdf="http://www.w3.org/1999/02/22-rdf-syntax-ns#">\<newline>'' @
     ''        <rdf:Description rdf:about=""\<newline>'' @
     ''            xmlns:dc="http://purl.org/dc/elements/1.1/"\<newline>'' @
     ''            xmlns:xmp="http://ns.adobe.com/xap/1.0/"\<newline>'' @
     ''            xmlns:xmpRights="http://ns.adobe.com/xap/1.0/rights/"\<newline>'' @
     ''            xmlns:photoshop="http://ns.adobe.com/photoshop/1.0/"\<newline>'' @
     ''            xmlns:Iptc4xmpCore="http://iptc.org/std/Iptc4xmpCore/1.0/xmlns/"\<newline>'' @
     ''            xmlns:iptcExt="http://iptc.org/std/Iptc4xmpExt/2008-02-29/">\<newline>'' @
     ''\<newline>'' @
     ''            <dc:title>\<newline>'' @
     ''                <rdf:Alt>\<newline>'' @
     ''                    <rdf:li xml:lang="x-default">'')\<close>

definition xmp_lit_description :: pystr where
  \<open>xmp_lit_description = ascii
    (''</rdf:li>\<newline>'' @
     ''                </rdf:Alt>\<newline>'' @
     ''            </dc:title>\<newline>'' @
     ''\<newline>'' @
     ''            <dc:description>\<newline>'' @
     ''                <rdf:Alt>\<newline>'' @
     ''                    <rdf:li xml:lang="x-default">'')\<close>

definition xmp_lit_creator :: pystr where
  \<open>xmp_lit_creator = ascii
    (''</rdf:li>\<newline>'' @
     ''                </rdf:Alt>\<newline>'' @
     ''            </dc:description>\<newline>'' @
     ''\<newline>'' @
     ''            <dc:creator>\<newline>'' @
     ''                <rdf:Seq>\<newline>'' @
     ''                    <rdf:li>'')\<close>

definition xmp_lit_rights :: pystr where
  \<open>xmp_lit_rights = ascii
    (''</rdf:li>\<newline>'' @
     ''                </rdf:Seq>\<newline>'' @
     ''            </dc:creator>\<newline>'' @
     ''\<newline>'' @
     ''            <dc:rights>\<newline>'' @
     ''                <rdf:Alt>\<newline>'' @
     ''                    <rdf:li xml:lang="x-default">'')\<close>

definition xmp_lit_subject :: pystr where
  \<open>xmp_lit_subject = ascii
    (''</rdf:li>\<newline>'' @
     ''                </rdf:Alt>\<newline>'' @
     ''            </dc:rights>\<newline>'' @
     ''\<newline>'' @
     ''            <dc:subject>\<newline>'' @
     ''                <rdf:Bag>\<newline>'')\<close>

definition xmp_lit_headline :: pystr where
  \<open>xmp_lit_headline = ascii
    (''\<newline>'' @
     ''                </rdf:Bag>\<newline>'' @
     ''            </dc:subject>\<newline>'' @
     ''\<newline>'' @
     ''            <photoshop:Headline>'')\<close>

definition xmp_lit_credit :: pystr where
  \<open>xmp_lit_credit = ascii
    (''</photoshop:Headline>\<newline>'' @
     ''            <photoshop:Credit>'')\<close>

definition xmp_lit_source :: pystr where
  \<open>xmp_lit_source = ascii
    (''</photoshop:Credit>\<newline>'' @
     ''            <photoshop:Source>'')\<close>

definition xmp_lit_date_created :: pystr where
  \<open>xmp_lit_date_created = ascii
    (''</photoshop:Source>\<newline>'' @
     ''            <photoshop:DateCreated>'')\<close>

definition xmp_lit_category :: pystr where
  \<open>xmp_lit_category = ascii
    (''</photoshop:DateCreated>\<newline>'' @
     ''            <photoshop:Category>'')\<close>

definition xmp_lit_website :: pystr where
  \<open>xmp_lit_website = ascii
    (''</photoshop:Category>\<newline>'' @
     ''\<newline>'' @
     ''            <xmpRights:Marked>True</xmpRights:Marked>\<newline>'' @
     ''\<newline>'' @
     ''            <Iptc4xmpCore:CreatorContactInfo>\<newline>'' @
     ''                <rdf:Description>\<newline>'' @
     ''                    <Iptc4xmpCore:CiUrlWork>'')\<close>

definition xmp_lit_phone :: pystr where
  \<open>xmp_lit_phone = ascii
    (''</Iptc4xmpCore:CiUrlWork>\<newline>'' @
     ''                    <Iptc4xmpCore:CiTelWork>'')\<close>

definition xmp_lit_end :: pystr where
  \<open>xmp_lit_end = ascii
    (''</Iptc4xmpCore:CiTelWork>\<newline>'' @
     ''                </rdf:Description>\<newline>'' @
     ''            </Iptc4xmpCore:CreatorContactInfo>\<newline>'' @
     ''\<newline>'' @
     ''        </rdf:Description>\<newline>'' @
     ''    </rdf:RDF>\<newline>'' @
     ''</x:xmpmeta>\<newline>'' @
     ''<?xpacket end="w"?>'')\<close>

definition xmp_fstring ::
  "pystr \<Rightarrow> pystr \<Rightarrow> pystr \<Rightarrow> pystr \<Rightarrow> pystr \<Rightarrow> pystr \<Rightarrow> pystr \<Rightarrow> pystr \<Rightarrow> pystr \<Rightarrow>
   pystr \<Rightarrow> pystr \<Rightarrow> pystr \<Rightarrow> pystr \<Rightarrow> pystr" where
  "xmp_fstring lit_title title description creator rights keywords_xml headline credit
       source date_created category website phone =
     lit_title @ title @ xmp_lit_description @ description @ xmp_lit_creator @ creator @
     xmp_lit_rights @ rights @ xmp_lit_subject @ keywords_xml @ xmp_lit_headline @ headline @
     xmp_lit_credit @ credit @ xmp_lit_source @ source @ xmp_lit_date_created @ date_created @
     xmp_lit_category @ category @ xmp_lit_website @ website @ xmp_lit_phone @ phone @
     xmp_lit_end"

text \<open>
  \<^verbatim>\<open>keywords = [kw.strip() for kw in subject.split(',') if kw.strip()]\<close>
\<close>

definition keywords_of :: "pystr \<Rightarrow> pystr list" where
  "keywords_of subject = map strip (filter (\<lambda>kw. strip kw \<noteq> []) (split 0x2C subject))"

text \<open>
  \<^verbatim>\<open>keywords_xml = '\n'.join([f'        <rdf:li>{kw}</rdf:li>' for kw in keywords])\<close>
  (the literal has 24 spaces before the tag).
\<close>

definition keyword_li :: "pystr \<Rightarrow> pystr" where
  "keyword_li kw = ascii ''                        <rdf:li>'' @ kw @ ascii ''</rdf:li>''"

definition keywords_xml_of :: "pystr list \<Rightarrow> pystr" where
  "keywords_xml_of keywords = join [0x0A] (map keyword_li keywords)"

text \<open>
  The body shared by the two copies of \<open>create_xmp_packet\<close>. \<open>subject.split\<close> is the
  one method call on a value of the dictionary: it raises \<open>AttributeError\<close> when the
  subject is not a string. Every other value is only rendered by the f-string.
\<close>

definition create_xmp_packet_with :: "pystr \<Rightarrow> metadata \<Rightarrow> py_error + pystr" where
  "create_xmp_packet_with lit_title m =
     (let title = get m ''xmp_title'' '''';
          description = get m ''xmp_description'' '''';
          creator = get m ''xmp_creator'' ''GroundSwell'';
          rights = get m ''xmp_rights'' '''';
          subject = get m ''xmp_subject'' '''';
          headline = get m ''xmp_headline'' '''';
          credit = get m ''xmp_credit'' ''GroundSwell'';
          source = get m ''xmp_source'' ''GroundSwell'';
          date_created = get m ''xmp_date_created'' '''';
          category = get m ''xmp_category'' ''Business Ownership Platform''
      in case subject of
           PyOther _ \<Rightarrow> Inl AttributeError
         | PyStr subj \<Rightarrow>
             Inr (xmp_fstring lit_title (format title) (format description) (format creator)
                    (format rights) (keywords_xml_of (keywords_of subj)) (format headline)
                    (format credit) (format source) (format date_created) (format category)
                    (format (get m ''xmp_website'' ''www.groundswell.co''))
                    (format (get m ''xmp_phone'' ''435-214-2997''))))"

text \<open>\<open>create_xmp_packet\<close> of \<open>api/index.py\<close>.\<close>

definition create_xmp_packet :: "metadata \<Rightarrow> py_error + pystr" where
  "create_xmp_packet = create_xmp_packet_with xmp_lit_title_index"

text \<open>\<open>create_xmp_packet\<close> of \<open>app.py\<close>.\<close>

definition create_xmp_packet_app :: "metadata \<Rightarrow> py_error + pystr" where
  "create_xmp_packet_app = create_xmp_packet_with xmp_lit_title_app"

section \<open>The libraries and the file system\<close>

text \<open>
  The files of \<open>app.py\<close>: a map from paths to contents. Two paths can name one file;
  which do is not a matter of their spelling and is asked of the operating system.
\<close>

type_synonym path = pystr
type_synonym filesystem = "path \<rightharpoonup> bytes"

text \<open>
  Pillow and piexif decode the image, re-encode its pixels and lay out the container;
  pathlib and the operating system know the paths. Their code is not part of the
  repository; the model takes them as the parameter \<open>lib\<close>:
  \<^item> \<open>image_open\<close> is \<open>Image.open\<close> on the bytes of a file;
  \<^item> \<open>save_jpeg\<close> is \<open>piexif.load\<close> of the Exif data of the opened image (guarded by a
    bare \<open>except\<close> in the source), the update of the four tags, \<open>piexif.dump\<close> and
    \<open>img.save(..., 'JPEG', exif=exif_bytes, quality=95)\<close>, giving the bytes written;
  \<^item> \<open>encode_png\<close> is the part of \<open>img.save(..., 'PNG', pnginfo=pnginfo)\<close> that depends
    on the image alone: the bytes that the encoder writes before the chunks of
    \<open>pnginfo\<close> (the signature, the header chunk \<open>IHDR\<close> and the colour profile, if
    any), the bytes that it writes between them and the image data (palette,
    transparency and resolution, if any), and the compressed image data, one piece for
    each chunk of type \<open>IDAT\<close>;
  \<^item> \<open>failed_save_jpeg\<close> and \<open>failed_save_png\<close> are what a call of
    \<open>img.save(output_path, ...)\<close> that raises leaves of the file system: when the
    encoder fails, Pillow has already opened the output file for writing, so the file
    is empty or partly written, or removed again when the call had created it;
  \<^item> \<open>suffix_lower\<close> is \<open>Path(filename).suffix.lower()\<close> of pathlib;
  \<^item> \<open>samefile\<close> is \<open>os.path.samefile\<close> on two paths that exist: whether both name one
    file, as \<open>d/x.gif\<close> and \<open>d/../d/x.gif\<close> do.
\<close>

record exif_tags =
  Artist :: bytes
  Copyright :: bytes
  ImageDescription :: bytes
  UserComment :: bytes

type_synonym png_chunk = "bytes \<times> bytes"

record 'img library =
  image_open :: "bytes \<Rightarrow> py_error + 'img"
  save_jpeg :: "'img \<Rightarrow> exif_tags \<Rightarrow> py_error + bytes"
  encode_png :: "'img \<Rightarrow> py_error + bytes \<times> bytes \<times> bytes list"
  failed_save_jpeg :: "'img \<Rightarrow> exif_tags \<Rightarrow> filesystem \<Rightarrow> path \<Rightarrow> filesystem"
  failed_save_png :: "'img \<Rightarrow> png_chunk list \<Rightarrow> filesystem \<Rightarrow> path \<Rightarrow> filesystem"
  suffix_lower :: "pystr \<Rightarrow> pystr"
  samefile :: "path \<Rightarrow> path \<Rightarrow> bool"

text \<open>
  An exception raised while the file system is in a given state: the handlers of
  \<open>app.py\<close> return with the files as the raising statement left them.
\<close>

definition raised_in :: "filesystem \<Rightarrow> py_error + 'a \<Rightarrow> py_error \<times> filesystem + 'a" where
  "raised_in fs r = (case r of Inl e \<Rightarrow> Inl (e, fs) | Inr x \<Rightarrow> Inr x)"

definition read_file :: "filesystem \<Rightarrow> path \<Rightarrow> py_error + bytes" where
  "read_file fs p = (case fs p of None \<Rightarrow> Inl FileNotFoundError | Some data \<Rightarrow> Inr data)"

section \<open>The marker-framed writer (JPEG)\<close>

definition soi :: bytes where
  "soi = [0xFF, 0xD8]"

definition xmp_marker :: bytes where
  "xmp_marker = [0xFF, 0xE1]"

definition xmp_header :: bytes where
  "xmp_header = ascii_bytes ''http://ns.adobe.com/xap/1.0/'' @ [0x00]"

text \<open>
  The lines that both files share: the packet is encoded, the segment length is
  computed and converted to two bytes, and the segment is assembled.
  \<^verbatim>\<open>xmp_bytes = xmp_data.encode('utf-8')\<close>
  \<^verbatim>\<open>segment_length = 2 + len(xmp_header) + len(xmp_bytes)\<close>
  \<^verbatim>\<open>length_bytes = segment_length.to_bytes(2, 'big')\<close>
  \<^verbatim>\<open>xmp_segment = xmp_marker + length_bytes + xmp_header + xmp_bytes\<close>
\<close>

definition xmp_segment :: "pystr \<Rightarrow> py_error + bytes" where
  "xmp_segment xmp_data =
     and_then (encode_utf8 xmp_data) (\<lambda>xmp_bytes.
     and_then (to_bytes_2_big (2 + length xmp_header + length xmp_bytes)) (\<lambda>length_bytes.
     Inr (xmp_marker @ length_bytes @ xmp_header @ xmp_bytes)))"

text \<open>\<^verbatim>\<open>new_data = data[:2] + xmp_segment + data[2:]\<close>\<close>

definition insert_after_soi :: "bytes \<Rightarrow> bytes \<Rightarrow> bytes" where
  "insert_after_soi data segment = take 2 data @ segment @ drop 2 data"

text \<open>
  \<open>embed_xmp_in_jpeg\<close> of \<open>app.py\<close>. The body of its \<open>try\<close> reads the file, returns
  \<open>False\<close> when the first two bytes are not the start-of-image marker, and otherwise
  writes the file back with the segment inserted. The handler \<open>except Exception\<close>
  turns every exception of the body into the return value \<open>False\<close>; the file is
  written by the last statement of the body only, so it is unchanged then.
\<close>

definition embed_xmp_in_jpeg_try ::
  "filesystem \<Rightarrow> path \<Rightarrow> pystr \<Rightarrow> py_error + filesystem \<times> bool" where
  "embed_xmp_in_jpeg_try fs file_path xmp_data =
     and_then (read_file fs file_path) (\<lambda>data.
       if take 2 data \<noteq> soi then Inr (fs, False)
       else and_then (xmp_segment xmp_data) (\<lambda>segment.
         Inr (fs(file_path \<mapsto> insert_after_soi data segment), True)))"

definition embed_xmp_in_jpeg ::
  "filesystem \<Rightarrow> path \<Rightarrow> pystr \<Rightarrow> py_error + filesystem \<times> bool" where
  "embed_xmp_in_jpeg fs file_path xmp_data =
     (case embed_xmp_in_jpeg_try fs file_path xmp_data of
        Inl e \<Rightarrow> Inr (fs, False)
      | Inr r \<Rightarrow> Inr r)"

text \<open>
  The four Exif tags, as both files compute them:
  \<^verbatim>\<open>artist = metadata.get('exif_artist', 'GroundSwell')\<close> and so on, each encoded as
  UTF-8, the user comment after the prefix \<^verbatim>\<open>b'ASCII\x00\x00\x00'\<close>.
\<close>

definition exif_tags_of :: "metadata \<Rightarrow> py_error + exif_tags" where
  "exif_tags_of m =
     and_then (encode_value (get m ''exif_artist'' ''GroundSwell'')) (\<lambda>artist.
     and_then (encode_value (get m ''exif_copyright'' '''')) (\<lambda>copyright_text.
     and_then (encode_value (get m ''exif_description'' '''')) (\<lambda>description.
     and_then (encode_value (get m ''exif_user_comment'' '''')) (\<lambda>user_comment.
     Inr \<lparr>Artist = artist, Copyright = copyright_text, ImageDescription = description,
          UserComment = ascii_bytes ''ASCII'' @ [0x00, 0x00, 0x00] @ user_comment\<rparr>))))"

text \<open>
  \<open>process_jpeg_metadata\<close> of \<open>api/index.py\<close>: the image is opened, the tags are
  encoded, the codec writes the JPEG stream, and the XMP segment is inserted after the
  first two bytes of that stream. No statement checks those two bytes, and every
  exception propagates to the caller.
\<close>

definition process_jpeg_metadata ::
  "'img library \<Rightarrow> bytes \<Rightarrow> metadata \<Rightarrow> py_error + bytes" where
  "process_jpeg_metadata lib image_data m =
     and_then (image_open lib image_data) (\<lambda>img.
     and_then (exif_tags_of m) (\<lambda>tags.
     and_then (save_jpeg lib img tags) (\<lambda>jpeg_data.
     and_then (create_xmp_packet m) (\<lambda>xmp_data.
     and_then (xmp_segment xmp_data) (\<lambda>segment.
     Inr (insert_after_soi jpeg_data segment))))))"

text \<open>
  \<open>write_metadata_to_jpeg\<close> of \<open>app.py\<close>: the packet is built before the codec runs,
  the codec writes \<open>output_path\<close>, and \<open>embed_xmp_in_jpeg\<close> is called on that file.
  Its return value is not used: the function returns \<open>True\<close>. The handler
  \<open>except Exception\<close> returns \<open>False\<close>. The statements before the save write no
  file; a save that raises leaves \<open>failed_save_jpeg\<close> of the file system.
\<close>

definition write_metadata_to_jpeg_try ::
  "'img library \<Rightarrow> filesystem \<Rightarrow> path \<Rightarrow> path \<Rightarrow> metadata \<Rightarrow>
     py_error \<times> filesystem + filesystem \<times> bool" where
  "write_metadata_to_jpeg_try lib fs file_path output_path m =
     and_then (raised_in fs (read_file fs file_path)) (\<lambda>data.
     and_then (raised_in fs (image_open lib data)) (\<lambda>img.
     and_then (raised_in fs (exif_tags_of m)) (\<lambda>tags.
     and_then (raised_in fs (create_xmp_packet_app m)) (\<lambda>xmp_data.
     and_then (raised_in (failed_save_jpeg lib img tags fs output_path)
         (save_jpeg lib img tags)) (\<lambda>jpeg_data.
     and_then (raised_in (fs(output_path \<mapsto> jpeg_data))
         (embed_xmp_in_jpeg (fs(output_path \<mapsto> jpeg_data)) output_path xmp_data))
       (\<lambda>(fs', embedded). Inr (fs', True)))))))"

definition write_metadata_to_jpeg ::
  "'img library \<Rightarrow> filesystem \<Rightarrow> path \<Rightarrow> path \<Rightarrow> metadata \<Rightarrow> py_error + filesystem \<times> bool" where
  "write_metadata_to_jpeg lib fs file_path output_path m =
     (case write_metadata_to_jpeg_try lib fs file_path output_path m of
        Inl (e, fs') \<Rightarrow> Inr (fs', False)
      | Inr r \<Rightarrow> Inr r)"

section \<open>The chunk-framed writer (PNG)\<close>

text \<open>
  \<open>PngInfo\<close> of Pillow collects chunks as pairs of a chunk type and its data.
  \<open>add_text(key, value)\<close> appends a \<open>tEXt\<close> chunk with the data
  \<open>key + b'\0' + value\<close>, both encoded as Latin-1; when the value has a character
  that Latin-1 cannot encode it calls \<open>add_itxt\<close>, which appends an \<open>iTXt\<close> chunk with
  the data \<open>key + b'\0\0\0' + lang + b'\0' + tkey + b'\0' + value\<close>, the value encoded
  as UTF-8 and the language tag and the translated keyword empty.
\<close>

definition add_itxt :: "png_chunk list \<Rightarrow> pystr \<Rightarrow> pystr \<Rightarrow> py_error + png_chunk list" where
  "add_itxt chunks key v =
     and_then (encode_latin1 key) (\<lambda>key_bytes.
     and_then (encode_utf8 v) (\<lambda>value_bytes.
     Inr (chunks @ [(ascii_bytes ''iTXt'',
            key_bytes @ [0x00, 0x00, 0x00] @ [] @ [0x00] @ [] @ [0x00] @ value_bytes)])))"

definition add_text :: "png_chunk list \<Rightarrow> pystr \<Rightarrow> pyval \<Rightarrow> py_error + png_chunk list" where
  "add_text chunks key v =
     (case v of
        PyOther _ \<Rightarrow> Inl AttributeError
      | PyStr s \<Rightarrow>
          (case encode_latin1 s of
             Inl e \<Rightarrow> add_itxt chunks key s
           | Inr value_bytes \<Rightarrow>
               and_then (encode_latin1 key) (\<lambda>key_bytes.
               Inr (chunks @ [(ascii_bytes ''tEXt'', key_bytes @ [0x00] @ value_bytes)]))))"

text \<open>
  The ten calls \<open>pnginfo.add_text(keyword, metadata.get(field, default))\<close> of both
  files, in the order of the source.
\<close>

definition png_text_fields :: "(string \<times> string \<times> string) list" where
  "png_text_fields =
     [(''Title'', ''xmp_title'', ''''),
      (''Description'', ''xmp_description'', ''''),
      (''Author'', ''exif_artist'', ''GroundSwell''),
      (''Copyright'', ''exif_copyright'', ''''),
      (''Comment'', ''exif_user_comment'', ''''),
      (''Keywords'', ''iptc_keywords'', ''''),
      (''Headline'', ''iptc_headline'', ''''),
      (''Credit'', ''iptc_credit'', ''GroundSwell''),
      (''Source'', ''xmp_source'', ''GroundSwell''),
      (''Creation Time'', ''exif_create_date'', '''')]"

fun add_texts ::
  "metadata \<Rightarrow> png_chunk list \<Rightarrow> (string \<times> string \<times> string) list \<Rightarrow> py_error + png_chunk list" where
  "add_texts m chunks [] = Inr chunks"
| "add_texts m chunks ((keyword, field, dflt) # rest) =
     and_then (add_text chunks (ascii keyword) (get m field dflt)) (\<lambda>chunks'.
       add_texts m chunks' rest)"

text \<open>
  The chunks that \<open>pnginfo\<close> holds when it is handed to \<open>img.save\<close>: the ten text
  chunks and the chunk of the packet under the keyword \<open>XML:com.adobe.xmp\<close>.
\<close>

definition pnginfo_of ::
  "(metadata \<Rightarrow> py_error + pystr) \<Rightarrow> metadata \<Rightarrow> py_error + png_chunk list" where
  "pnginfo_of packet m =
     and_then (add_texts m [] png_text_fields) (\<lambda>chunks.
     and_then (packet m) (\<lambda>xmp_data.
     add_text chunks (ascii ''XML:com.adobe.xmp'') (PyStr xmp_data)))"

text \<open>
  The PNG encoder of Pillow writes a chunk with \<open>putchunk\<close>: the length of the data in
  four bytes, the chunk type, the data, and the CRC-32 of type and data in four bytes.
  \<^verbatim>\<open>fp.write(o32(len(data)) + cid)\<close>
  \<^verbatim>\<open>fp.write(data)\<close>
  \<^verbatim>\<open>crc = _crc32(data, _crc32(cid))\<close>
  \<^verbatim>\<open>fp.write(o32(crc))\<close>
  \<open>o32\<close> is \<open>struct.pack('>I', i)\<close>, which raises outside the range of four bytes;
  \<open>_crc32\<close> is \<open>zlib.crc32\<close>, the CRC-32 of ISO 3309 that the PNG format prescribes,
  the second argument continuing a checksum.
\<close>

definition o32 :: "nat \<Rightarrow> py_error + bytes" where
  "o32 i =
     (if i < 0x100000000 then
        Inr [of_nat (i div 0x1000000), of_nat (i div 0x10000 mod 0x100),
             of_nat (i div 0x100 mod 0x100), of_nat (i mod 0x100)]
      else Inl StructError)"

definition crc32_bit :: "32 word \<Rightarrow> 32 word" where
  "crc32_bit c = (if bit c 0 then drop_bit 1 c XOR 0xEDB88320 else drop_bit 1 c)"

definition crc32_byte :: "32 word \<Rightarrow> byte \<Rightarrow> 32 word" where
  "crc32_byte c b = (crc32_bit ^^ 8) (c XOR ucast b)"

definition crc32 :: "bytes \<Rightarrow> 32 word" where
  "crc32 data = foldl crc32_byte 0xFFFFFFFF data XOR 0xFFFFFFFF"

definition putchunk :: "png_chunk \<Rightarrow> py_error + bytes" where
  "putchunk chunk =
     (case chunk of (cid, data) \<Rightarrow>
        and_then (o32 (length data)) (\<lambda>length_bytes.
        and_then (o32 (unat (crc32 (cid @ data)))) (\<lambda>crc_bytes.
        Inr (length_bytes @ cid @ data @ crc_bytes))))"

fun putchunks :: "png_chunk list \<Rightarrow> py_error + bytes" where
  "putchunks [] = Inr []"
| "putchunks (chunk # chunks) =
     and_then (putchunk chunk) (\<lambda>written.
     and_then (putchunks chunks) (\<lambda>rest. Inr (written @ rest)))"

text \<open>
  \<open>img.save(..., 'PNG', pnginfo=pnginfo)\<close>: the encoder writes the signature and the
  header chunk, then every chunk of \<open>pnginfo\<close> whose type is \<open>tEXt\<close>, \<open>iTXt\<close> or \<open>zTXt\<close>
  in the order in which it was added, then the chunks for palette, transparency and
  resolution, then the image data in chunks of type \<open>IDAT\<close>, and the chunk \<open>IEND\<close>.
\<close>

definition image_chunks :: "bytes list \<Rightarrow> png_chunk list" where
  "image_chunks idat =
     map (\<lambda>data. (ascii_bytes ''IDAT'', data)) idat @ [(ascii_bytes ''IEND'', [])]"

definition save_png :: "'img library \<Rightarrow> 'img \<Rightarrow> png_chunk list \<Rightarrow> py_error + bytes" where
  "save_png lib img chunks =
     and_then (encode_png lib img) (\<lambda>(before, between, idat).
     and_then (putchunks chunks) (\<lambda>written.
     and_then (putchunks (image_chunks idat)) (\<lambda>image_written.
     Inr (before @ written @ between @ image_written))))"

text \<open>\<open>process_png_metadata\<close> of \<open>api/index.py\<close>.\<close>

definition process_png_metadata ::
  "'img library \<Rightarrow> bytes \<Rightarrow> metadata \<Rightarrow> py_error + bytes" where
  "process_png_metadata lib image_data m =
     and_then (image_open lib image_data) (\<lambda>img.
     and_then (pnginfo_of create_xmp_packet m) (\<lambda>chunks.
     save_png lib img chunks))"

text \<open>
  \<open>write_metadata_to_png\<close> of \<open>app.py\<close>, with its handler \<open>except Exception\<close>. The save
  is the only statement that writes a file.
\<close>

definition write_metadata_to_png_try ::
  "'img library \<Rightarrow> filesystem \<Rightarrow> path \<Rightarrow> path \<Rightarrow> metadata \<Rightarrow>
     py_error \<times> filesystem + filesystem \<times> bool" where
  "write_metadata_to_png_try lib fs file_path output_path m =
     and_then (raised_in fs (read_file fs file_path)) (\<lambda>data.
     and_then (raised_in fs (image_open lib data)) (\<lambda>img.
     and_then (raised_in fs (pnginfo_of create_xmp_packet_app m)) (\<lambda>chunks.
     and_then (raised_in (failed_save_png lib img chunks fs output_path)
         (save_png lib img chunks)) (\<lambda>png_data.
     Inr (fs(output_path \<mapsto> png_data), True)))))"

definition write_metadata_to_png ::
  "'img library \<Rightarrow> filesystem \<Rightarrow> path \<Rightarrow> path \<Rightarrow> metadata \<Rightarrow> py_error + filesystem \<times> bool" where
  "write_metadata_to_png lib fs file_path output_path m =
     (case write_metadata_to_png_try lib fs file_path output_path m of
        Inl (e, fs') \<Rightarrow> Inr (fs', False)
      | Inr r \<Rightarrow> Inr r)"

section \<open>The dispatch on the extension\<close>

text \<open>\<open>process_image_metadata\<close> of \<open>api/index.py\<close>.\<close>

definition process_image_metadata ::
  "'img library \<Rightarrow> bytes \<Rightarrow> pystr \<Rightarrow> metadata \<Rightarrow> py_error + bytes" where
  "process_image_metadata lib image_data filename m =
     (let ext = suffix_lower lib filename
      in if ext \<in> set [ascii ''.jpg'', ascii ''.jpeg''] then process_jpeg_metadata lib image_data m
         else if ext = ascii ''.png'' then process_png_metadata lib image_data m
         else Inr image_data)"

text \<open>
  \<open>shutil.copy2(src, dst)\<close> between two files; the file system of the model holds
  files only, so a destination that is a directory is outside it. The call first asks
  \<open>os.path.samefile\<close>, which fails when one of the paths does not exist; that failure
  counts as a negative answer. So \<open>SameFileError\<close> is raised when both paths exist and
  name one file, whatever their spelling, and \<open>FileNotFoundError\<close> when the source
  does not exist.
\<close>

definition copy2 :: "'img library \<Rightarrow> filesystem \<Rightarrow> path \<Rightarrow> path \<Rightarrow> py_error + filesystem" where
  "copy2 lib fs src dst =
     (if fs src \<noteq> None \<and> fs dst \<noteq> None \<and> (src = dst \<or> samefile lib src dst)
      then Inl SameFileError
      else and_then (read_file fs src) (\<lambda>data. Inr (fs(dst \<mapsto> data))))"

text \<open>\<open>write_metadata_to_image\<close> of \<open>app.py\<close>.\<close>

definition write_metadata_to_image ::
  "'img library \<Rightarrow> filesystem \<Rightarrow> path \<Rightarrow> path \<Rightarrow> metadata \<Rightarrow> py_error + filesystem \<times> bool" where
  "write_metadata_to_image lib fs file_path output_path m =
     (let ext = suffix_lower lib file_path
      in if ext \<in> set [ascii ''.jpg'', ascii ''.jpeg''] then
           write_metadata_to_jpeg lib fs file_path output_path m
         else if ext = ascii ''.png'' then
           write_metadata_to_png lib fs file_path output_path m
         else and_then (copy2 lib fs file_path output_path) (\<lambda>fs'. Inr (fs', False)))"

section \<open>The output file name (\<open>save_metadata\<close>)\<close>

text \<open>
  \<^verbatim>\<open>safe_title = "".join(c if c.isalnum() or c in ' -_' else '' for c in title)\<close>
  \<^verbatim>\<open>                 .replace(' ', '_')[:50]\<close>
\<close>

definition safe_title :: "(codepoint \<Rightarrow> bool) \<Rightarrow> pystr \<Rightarrow> pystr" where
  "safe_title ucd title =
     take 50 (replace_char 0x20 0x5F
       (concat (map (\<lambda>c. if isalnum ucd c \<or> c \<in> set (ascii '' -_'') then [c] else []) title)))"

section \<open>Notions used to state the properties\<close>

text \<open>
  The number of non-empty tokens of a keyword field, by one pass over the field that
  knows nothing of \<open>split\<close> and \<open>strip\<close>: a comma ends a token, and a token counts
  when a character that is not whitespace was seen in it.
\<close>

fun token_count :: "bool \<Rightarrow> pystr \<Rightarrow> nat" where
  "token_count seen [] = (if seen then 1 else 0)"
| "token_count seen (c # cs) =
     (if c = 0x2C then (if seen then 1 else 0) + token_count False cs
      else token_count (seen \<or> \<not> isspace c) cs)"

definition nonempty_token_count :: "pystr \<Rightarrow> nat" where
  "nonempty_token_count subject = token_count False subject"

text \<open>The number of positions of a text at which a pattern occurs.\<close>

fun occurrences :: "pystr \<Rightarrow> pystr \<Rightarrow> nat" where
  "occurrences pat [] = 0"
| "occurrences pat (c # cs) =
     (if take (length pat) (c # cs) = pat then 1 else 0) + occurrences pat cs"

text \<open>
  The escaping that the specification asks of the builder: the five predefined
  entities.
\<close>

definition xml_metachar :: "codepoint \<Rightarrow> bool" where
  "xml_metachar c \<longleftrightarrow> c = 0x26 \<or> c = 0x3C \<or> c = 0x3E \<or> c = 0x22 \<or> c = 0x27"

definition xml_escape_char :: "codepoint \<Rightarrow> pystr" where
  "xml_escape_char c =
     (if c = 0x26 then ascii ''&amp;''
      else if c = 0x3C then ascii ''&lt;''
      else if c = 0x3E then ascii ''&gt;''
      else if c = 0x22 then ascii ''&quot;''
      else if c = 0x27 then ascii ''&apos;''
      else [c])"

definition xml_escape :: "pystr \<Rightarrow> pystr" where
  "xml_escape s = concat (map xml_escape_char s)"

text \<open>
  The builder of the specification, written after its words and not after the source:
  the builder of the source with the five characters escaped in every interpolated
  value, the keywords one by one.
\<close>

definition create_xmp_packet_escaping :: "pystr \<Rightarrow> metadata \<Rightarrow> py_error + pystr" where
  "create_xmp_packet_escaping lit_title m =
     (let title = get m ''xmp_title'' '''';
          description = get m ''xmp_description'' '''';
          creator = get m ''xmp_creator'' ''GroundSwell'';
          rights = get m ''xmp_rights'' '''';
          subject = get m ''xmp_subject'' '''';
          headline = get m ''xmp_headline'' '''';
          credit = get m ''xmp_credit'' ''GroundSwell'';
          source = get m ''xmp_source'' ''GroundSwell'';
          date_created = get m ''xmp_date_created'' '''';
          category = get m ''xmp_category'' ''Business Ownership Platform''
      in case subject of
           PyOther _ \<Rightarrow> Inl AttributeError
         | PyStr subj \<Rightarrow>
             Inr (xmp_fstring lit_title (xml_escape (format title))
                    (xml_escape (format description)) (xml_escape (format creator))
                    (xml_escape (format rights))
                    (keywords_xml_of (map xml_escape (keywords_of subj)))
                    (xml_escape (format headline)) (xml_escape (format credit))
                    (xml_escape (format source)) (xml_escape (format date_created))
                    (xml_escape (format category))
                    (xml_escape (format (get m ''xmp_website'' ''www.groundswell.co'')))
                    (xml_escape (format (get m ''xmp_phone'' ''435-214-2997'')))))"

text \<open>The values that the builder interpolates, in the order of the template.\<close>

definition interpolated_values :: "metadata \<Rightarrow> pystr list" where
  "interpolated_values m =
     [format (get m ''xmp_title'' ''''), format (get m ''xmp_description'' ''''),
      format (get m ''xmp_creator'' ''GroundSwell''), format (get m ''xmp_rights'' '''')]
     @ keywords_of (format (get m ''xmp_subject'' ''''))
     @ [format (get m ''xmp_headline'' ''''), format (get m ''xmp_credit'' ''GroundSwell''),
        format (get m ''xmp_source'' ''GroundSwell''), format (get m ''xmp_date_created'' ''''),
        format (get m ''xmp_category'' ''Business Ownership Platform''),
        format (get m ''xmp_website'' ''www.groundswell.co''),
        format (get m ''xmp_phone'' ''435-214-2997'')]"

text \<open>
  The two shapes of a text chunk: \<open>tEXt\<close> with the data keyword, NUL, value in
  Latin-1; \<open>iTXt\<close> with the data keyword, NUL, compression flag and method 0, empty
  language tag, NUL, empty translated keyword, NUL, value in UTF-8.
\<close>

definition text_chunk :: "string \<Rightarrow> bytes \<Rightarrow> png_chunk" where
  "text_chunk keyword value_bytes =
     (ascii_bytes ''tEXt'', ascii_bytes keyword @ [0x00] @ value_bytes)"

definition itxt_chunk :: "string \<Rightarrow> bytes \<Rightarrow> png_chunk" where
  "itxt_chunk keyword value_bytes =
     (ascii_bytes ''iTXt'', ascii_bytes keyword @ [0x00, 0x00, 0x00, 0x00, 0x00] @ value_bytes)"

text \<open>
  The chunk expected for a keyword and a value: \<open>tEXt\<close> when every character of the
  value is in Latin-1, \<open>iTXt\<close> otherwise. A surrogate has no UTF-8 encoding.
\<close>

definition surrogate :: "codepoint \<Rightarrow> bool" where
  "surrogate c \<longleftrightarrow> 0xD800 \<le> c \<and> c \<le> 0xDFFF"

definition utf8 :: "pystr \<Rightarrow> bytes" where
  "utf8 s = (case encode_utf8 s of Inl e \<Rightarrow> [] | Inr value_bytes \<Rightarrow> value_bytes)"

definition text_chunk_for :: "string \<Rightarrow> pystr \<Rightarrow> png_chunk" where
  "text_chunk_for keyword v =
     (if list_all (\<lambda>c. c < 0x100) v then text_chunk keyword (map of_nat v)
      else itxt_chunk keyword (utf8 v))"

text \<open>
  The values that the PNG writer stores, the packet last, and the chunks expected for
  them.
\<close>

definition png_values :: "metadata \<Rightarrow> pystr \<Rightarrow> pystr list" where
  "png_values m xmp_data =
     map (\<lambda>(keyword, field, dflt). format (get m field dflt)) png_text_fields @ [xmp_data]"

definition png_chunks_for :: "metadata \<Rightarrow> pystr \<Rightarrow> png_chunk list" where
  "png_chunks_for m xmp_data =
     map (\<lambda>(keyword, field, dflt). text_chunk_for keyword (format (get m field dflt)))
       png_text_fields
     @ [text_chunk_for ''XML:com.adobe.xmp'' xmp_data]"

text \<open>
  A reader of the chunks of a PNG stream, to state that what the encoder wrote is
  well-formed: it reads the length in four bytes, the type, the data and the checksum
  in four bytes, and accepts a chunk when the checksum read is the CRC-32 of its type
  and data. \<open>read_chunks k\<close> reads \<open>k\<close> chunks and gives them with the bytes that
  follow.
\<close>

definition i32 :: "bytes \<Rightarrow> nat" where
  "i32 bs = foldl (\<lambda>n b. n * 0x100 + unat b) 0 bs"

definition read_chunk :: "bytes \<Rightarrow> (png_chunk \<times> bytes) option" where
  "read_chunk bs =
     (let n = i32 (take 4 bs);
          cid = take 4 (drop 4 bs);
          data = take n (drop 8 bs);
          crc = take 4 (drop (8 + n) bs)
      in if length bs < 12 + n then None
         else if i32 crc = unat (crc32 (cid @ data)) then Some ((cid, data), drop (12 + n) bs)
         else None)"

fun read_chunks :: "nat \<Rightarrow> bytes \<Rightarrow> (png_chunk list \<times> bytes) option" where
  "read_chunks 0 bs = Some ([], bs)"
| "read_chunks (Suc k) bs =
     (case read_chunk bs of
        None \<Rightarrow> None
      | Some (chunk, rest) \<Rightarrow>
          (case read_chunks k rest of
             None \<Rightarrow> None
           | Some (chunks, rest') \<Rightarrow> Some (chunk # chunks, rest')))"

section \<open>Concrete instances\<close>

text \<open>
  A stand-in for the libraries, for evaluating the model on concrete inputs: an image
  is its bytes, the JPEG codec writes the start-of-image marker and those bytes, the
  PNG encoder writes the signature before the chunks of the caller and those bytes as
  the image data, a failed save leaves the output file empty, the suffix of a name is
  the name, and two paths name one file when they are spelt alike.
\<close>

definition echo_library :: "bytes library" where
  "echo_library =
     \<lparr>image_open = (\<lambda>data. Inr data),
      save_jpeg = (\<lambda>img tags. Inr (soi @ img)),
      encode_png = (\<lambda>img. Inr ([0x89, 0x50, 0x4E, 0x47, 0x0D, 0x0A, 0x1A, 0x0A], [], [img])),
      failed_save_jpeg = (\<lambda>img tags fs output_path. fs(output_path \<mapsto> [])),
      failed_save_png = (\<lambda>img chunks fs output_path. fs(output_path \<mapsto> [])),
      suffix_lower = (\<lambda>name. name),
      samefile = (\<lambda>p q. p = q)\<rparr>"


text \<open>The packet of \<open>api/index.py\<close> for the empty dictionary: every field at its default.\<close>

definition default_packet :: pystr where
  "default_packet =
     xmp_fstring xmp_lit_title_index [] [] (ascii ''GroundSwell'') [] [] []
       (ascii ''GroundSwell'') (ascii ''GroundSwell'') [] (ascii ''Business Ownership Platform'')
       (ascii ''www.groundswell.co'') (ascii ''435-214-2997'')"

text \<open>The packet of \<open>app.py\<close> for the empty dictionary.\<close>

definition default_packet_app :: pystr where
  "default_packet_app =
     xmp_fstring xmp_lit_title_app [] [] (ascii ''GroundSwell'') [] [] []
       (ascii ''GroundSwell'') (ascii ''GroundSwell'') [] (ascii ''Business Ownership Platform'')
       (ascii ''www.groundswell.co'') (ascii ''435-214-2997'')"

text \<open>A dictionary whose title alone makes the packet longer than a segment can hold.\<close>

definition oversize_metadata :: metadata where
  "oversize_metadata = [ascii ''xmp_title'' \<mapsto> PyStr (replicate 70000 0x61)]"

definition oversize_packet :: "pystr \<Rightarrow> pystr" where
  "oversize_packet lit_title =
     xmp_fstring lit_title (replicate 70000 0x61) [] (ascii ''GroundSwell'') [] [] []
       (ascii ''GroundSwell'') (ascii ''GroundSwell'') [] (ascii ''Business Ownership Platform'')
       (ascii ''www.groundswell.co'') (ascii ''435-214-2997'')"

text \<open>
  The second scenario of the specification: a title \<open>X\<close> and a description \<open>Y\<close>, the
  packet built for them, and the chunks expected of the PNG writer.
\<close>

definition title_description_metadata :: metadata where
  "title_description_metadata =
     [ascii ''xmp_title'' \<mapsto> PyStr (ascii ''X''), ascii ''xmp_description'' \<mapsto> PyStr (ascii ''Y'')]"

definition title_description_packet :: pystr where
  "title_description_packet =
     xmp_fstring xmp_lit_title_index (ascii ''X'') (ascii ''Y'') (ascii ''GroundSwell'') [] [] []
       (ascii ''GroundSwell'') (ascii ''GroundSwell'') [] (ascii ''Business Ownership Platform'')
       (ascii ''www.groundswell.co'') (ascii ''435-214-2997'')"

definition title_description_chunks :: "png_chunk list" where
  "title_description_chunks =
     [(ascii_bytes ''tEXt'', ascii_bytes ''Title'' @ [0x00] @ ascii_bytes ''X''),
      (ascii_bytes ''tEXt'', ascii_bytes ''Description'' @ [0x00] @ ascii_bytes ''Y''),
      (ascii_bytes ''tEXt'', ascii_bytes ''Author'' @ [0x00] @ ascii_bytes ''GroundSwell''),
      (ascii_bytes ''tEXt'', ascii_bytes ''Copyright'' @ [0x00]),
      (ascii_bytes ''tEXt'', ascii_bytes ''Comment'' @ [0x00]),
      (ascii_bytes ''tEXt'', ascii_bytes ''Keywords'' @ [0x00]),
      (ascii_bytes ''tEXt'', ascii_bytes ''Headline'' @ [0x00]),
      (ascii_bytes ''tEXt'', ascii_bytes ''Credit'' @ [0x00] @ ascii_bytes ''GroundSwell''),
      (ascii_bytes ''tEXt'', ascii_bytes ''Source'' @ [0x00] @ ascii_bytes ''GroundSwell''),
      (ascii_bytes ''tEXt'', ascii_bytes ''Creation Time'' @ [0x00]),
      (ascii_bytes ''tEXt'',
       ascii_bytes ''XML:com.adobe.xmp'' @ [0x00] @ map of_nat title_description_packet)]"

section \<open>Properties of the output file name\<close>

lemma concat_map_keep:
  "concat (map (\<lambda>c. if P c then [c] else []) xs) = filter P xs"
  by (induction xs) simp_all

lemma set_ascii_keep: "c \<in> set (ascii '' -_'') \<longleftrightarrow> c = 0x20 \<or> c = 0x2D \<or> c = 0x5F"
  by (auto simp: ascii_def)

lemma isalnum_ascii_cases:
  "isalnum ucd 0x20 = False" "isalnum ucd 0x2F = False" "isalnum ucd 0x5C = False"
  "isalnum ucd 0x2E = False" "isalnum ucd 0 = False"
  by (simp_all add: isalnum_def)

text \<open>
  Claim C10. For every title string the stem computed by \<open>save_metadata\<close> is the
  first 50 characters of what is left of the title when only alphanumeric
  characters, spaces, hyphens and underscores are kept and every space is replaced by
  an underscore. So the stem has at most 50 characters, each of them alphanumeric, a
  hyphen or an underscore, and it contains no slash, backslash, dot or NUL.
\<close>

theorem safe_title_filters:
  "safe_title ucd title =
     take 50 (map (\<lambda>c. if c = 0x20 then 0x5F else c)
       (filter (\<lambda>c. isalnum ucd c \<or> c = 0x20 \<or> c = 0x2D \<or> c = 0x5F) title))
   \<and> length (safe_title ucd title) \<le> 50
   \<and> (\<forall>c \<in> set (safe_title ucd title). isalnum ucd c \<or> c = 0x2D \<or> c = 0x5F)
   \<and> 0x2F \<notin> set (safe_title ucd title)
   \<and> 0x5C \<notin> set (safe_title ucd title)
   \<and> 0x2E \<notin> set (safe_title ucd title)
   \<and> 0x20 \<notin> set (safe_title ucd title)
   \<and> 0 \<notin> set (safe_title ucd title)"
proof -
  let ?keep = "\<lambda>c. isalnum ucd c \<or> c = 0x20 \<or> c = 0x2D \<or> c = 0x5F"
  let ?sub = "\<lambda>c::codepoint. if c = 0x20 then 0x5F else c"
  have eq: "safe_title ucd title = take 50 (map ?sub (filter ?keep title))"
    by (simp add: safe_title_def replace_char_def concat_map_keep set_ascii_keep)
  have len: "length (safe_title ucd title) \<le> 50"
    by (simp add: eq)
  have mem: "isalnum ucd c \<or> c = 0x2D \<or> c = 0x5F" if "c \<in> set (safe_title ucd title)" for c
  proof -
    from that have "c \<in> set (map ?sub (filter ?keep title))"
      unfolding eq by (rule in_set_takeD)
    then have "\<exists>d. ?keep d \<and> c = ?sub d"
      by (simp add: image_iff) blast
    then obtain d where d: "?keep d" and c: "c = ?sub d"
      by blast
    show ?thesis
      using d c by (cases "d = 0x20") auto
  qed
  have no: "c \<notin> set (safe_title ucd title)"
    if "\<not> isalnum ucd c" "c \<noteq> 0x2D" "c \<noteq> 0x5F" for c
    using mem that by blast
  show ?thesis
    using eq len mem no [of "0x2F"] no [of "0x5C"] no [of "0x2E"] no [of "0x20"] no [of "0"]
    by (simp add: isalnum_ascii_cases)
qed

theorem safe_title_filters_witness:
  "safe_title (\<lambda>_. False) (ascii ''a/b c.d'') = ascii ''ab_cd''
   \<and> 0x5F \<in> set (safe_title (\<lambda>_. False) (ascii ''a/b c.d''))
   \<and> 0x2F \<notin> set (safe_title (\<lambda>_. False) (ascii ''a/b c.d''))"
  using safe_title_filters [of "\<lambda>_. False" "ascii ''a/b c.d''"]
  by (simp add: ascii_def isalnum_def)

section \<open>Sequencing, encoding and the literal text\<close>

lemma and_then_simps [simp]:
  "and_then (Inl e) f = Inl e" "and_then (Inr x) f = f x"
  by (simp_all add: and_then_def)

lemma and_then_eq_Inr: "and_then r f = Inr y \<longleftrightarrow> (\<exists>x. r = Inr x \<and> f x = Inr y)"
  by (cases r) simp_all

lemma and_then_eq_Inl: "and_then r f = Inl e \<longleftrightarrow> r = Inl e \<or> (\<exists>x. r = Inr x \<and> f x = Inl e)"
  by (cases r) simp_all

lemma length_xmp_header: "length xmp_header = 29"
  by (simp add: xmp_header_def ascii_bytes_def)

lemma to_bytes_2_big_iff:
  "to_bytes_2_big n = Inr bs \<longleftrightarrow>
     n < 0x10000 \<and> (\<exists>hi lo. bs = [hi, lo] \<and> 256 * unat hi + unat lo = n)"
proof
  assume "to_bytes_2_big n = Inr bs"
  then have n: "n < 0x10000" and bs: "bs = [of_nat (n div 0x100), of_nat (n mod 0x100)]"
    by (auto simp: to_bytes_2_big_def split: if_splits)
  have "n div 0x100 < 256" using n by simp
  then have hi: "unat (of_nat (n div 0x100) :: byte) = n div 0x100"
    by (simp add: unat_of_nat)
  have lo: "unat (of_nat (n mod 0x100) :: byte) = n mod 0x100"
    by (simp add: unat_of_nat)
  show "n < 0x10000 \<and> (\<exists>hi lo. bs = [hi, lo] \<and> 256 * unat hi + unat lo = n)"
    using n bs hi lo by simp
next
  assume "n < 0x10000 \<and> (\<exists>hi lo. bs = [hi, lo] \<and> 256 * unat hi + unat lo = n)"
  then obtain hi lo :: byte where n: "n < 0x10000" and bs: "bs = [hi, lo]"
    and eq: "256 * unat hi + unat lo = n"
    by blast
  have lo_lt: "unat lo < 256"
    using unsigned_less [of lo, where 'a = nat] by simp
  have "n div 0x100 = unat hi" "n mod 0x100 = unat lo"
    using eq lo_lt by auto
  then have "of_nat (n div 0x100) = hi" "of_nat (n mod 0x100) = lo"
    by simp_all
  then show "to_bytes_2_big n = Inr bs"
    using n bs by (simp add: to_bytes_2_big_def)
qed

lemma to_bytes_2_big_large: "0x10000 \<le> n \<Longrightarrow> to_bytes_2_big n = Inl OverflowError"
  by (simp add: to_bytes_2_big_def)

lemma xmp_segment_iff:
  "xmp_segment x = Inr seg \<longleftrightarrow>
     (\<exists>xmp_bytes hi lo. encode_utf8 x = Inr xmp_bytes
        \<and> 2 + length xmp_header + length xmp_bytes < 0x10000
        \<and> 256 * unat hi + unat lo = 2 + length xmp_header + length xmp_bytes
        \<and> seg = xmp_marker @ [hi, lo] @ xmp_header @ xmp_bytes)"
  unfolding xmp_segment_def and_then_eq_Inr to_bytes_2_big_iff
  by auto

lemma xmp_segment_overflow:
  "encode_utf8 x = Inr xmp_bytes \<Longrightarrow> 0xFFFF < 2 + length xmp_header + length xmp_bytes
   \<Longrightarrow> xmp_segment x = Inl OverflowError"
  by (simp add: xmp_segment_def to_bytes_2_big_large)

lemma embed_xmp_in_jpeg_True_iff:
  "embed_xmp_in_jpeg fs p x = Inr (fs', True) \<longleftrightarrow>
     (\<exists>data seg. fs p = Some data \<and> take 2 data = soi \<and> xmp_segment x = Inr seg
        \<and> fs' = fs(p \<mapsto> soi @ seg @ drop 2 data))"
  by (cases "fs p"; cases "xmp_segment x")
     (auto simp: embed_xmp_in_jpeg_def embed_xmp_in_jpeg_try_def read_file_def
        insert_after_soi_def)

lemma process_jpeg_metadata_iff:
  "process_jpeg_metadata lib image_data m = Inr final_data \<longleftrightarrow>
     (\<exists>img tags jpeg_data xmp_data seg.
        image_open lib image_data = Inr img \<and> exif_tags_of m = Inr tags
        \<and> save_jpeg lib img tags = Inr jpeg_data \<and> create_xmp_packet m = Inr xmp_data
        \<and> xmp_segment xmp_data = Inr seg
        \<and> final_data = take 2 jpeg_data @ seg @ drop 2 jpeg_data)"
  unfolding process_jpeg_metadata_def and_then_eq_Inr insert_after_soi_def
  by auto

lemma embed_xmp_in_jpeg_layout:
  "embed_xmp_in_jpeg fs file_path xmp_data = Inr (fs', True) \<longleftrightarrow>
      (\<exists>data xmp_bytes hi lo.
         fs file_path = Some data \<and> take 2 data = soi
         \<and> encode_utf8 xmp_data = Inr xmp_bytes
         \<and> 2 + length xmp_header + length xmp_bytes < 0x10000
         \<and> 256 * unat hi + unat lo = 2 + length xmp_header + length xmp_bytes
         \<and> fs' = fs(file_path \<mapsto>
              soi @ xmp_marker @ [hi, lo] @ xmp_header @ xmp_bytes @ drop 2 data))"
  (is "?L \<longleftrightarrow> ?R")
proof
  assume ?L
  then obtain data seg where d: "fs file_path = Some data" "take 2 data = soi"
    and seg: "xmp_segment xmp_data = Inr seg"
    and fs': "fs' = fs(file_path \<mapsto> soi @ seg @ drop 2 data)"
    unfolding embed_xmp_in_jpeg_True_iff by blast
  from seg obtain xmp_bytes hi lo where
    "encode_utf8 xmp_data = Inr xmp_bytes"
    "2 + length xmp_header + length xmp_bytes < 0x10000"
    "256 * unat hi + unat lo = 2 + length xmp_header + length xmp_bytes"
    "seg = xmp_marker @ [hi, lo] @ xmp_header @ xmp_bytes"
    unfolding xmp_segment_iff by blast
  with d fs' show ?R
    by (intro exI [of _ data] exI [of _ xmp_bytes] exI [of _ hi] exI [of _ lo]) simp
next
  assume ?R
  then obtain data xmp_bytes hi lo where d: "fs file_path = Some data" "take 2 data = soi"
    and x: "encode_utf8 xmp_data = Inr xmp_bytes"
      "2 + length xmp_header + length xmp_bytes < 0x10000"
      "256 * unat hi + unat lo = 2 + length xmp_header + length xmp_bytes"
    and fs': "fs' = fs(file_path \<mapsto>
              soi @ xmp_marker @ [hi, lo] @ xmp_header @ xmp_bytes @ drop 2 data)"
    by blast
  from x have "xmp_segment xmp_data = Inr (xmp_marker @ [hi, lo] @ xmp_header @ xmp_bytes)"
    unfolding xmp_segment_iff by blast
  with d fs' show ?L
    unfolding embed_xmp_in_jpeg_True_iff
    by (intro exI [of _ data] exI [of _ "xmp_marker @ [hi, lo] @ xmp_header @ xmp_bytes"]) simp
qed

lemma process_jpeg_metadata_layout:
  "process_jpeg_metadata lib image_data m = Inr final_data \<longleftrightarrow>
      (\<exists>img tags jpeg_data xmp_data xmp_bytes hi lo.
         image_open lib image_data = Inr img \<and> exif_tags_of m = Inr tags
         \<and> save_jpeg lib img tags = Inr jpeg_data \<and> create_xmp_packet m = Inr xmp_data
         \<and> encode_utf8 xmp_data = Inr xmp_bytes
         \<and> 2 + length xmp_header + length xmp_bytes < 0x10000
         \<and> 256 * unat hi + unat lo = 2 + length xmp_header + length xmp_bytes
         \<and> final_data =
              take 2 jpeg_data @ xmp_marker @ [hi, lo] @ xmp_header @ xmp_bytes
                @ drop 2 jpeg_data)"
  (is "?L \<longleftrightarrow> ?R")
proof
  assume ?L
  then obtain img tags jpeg_data xmp_data seg where
    a: "image_open lib image_data = Inr img" "exif_tags_of m = Inr tags"
      "save_jpeg lib img tags = Inr jpeg_data" "create_xmp_packet m = Inr xmp_data"
    and seg: "xmp_segment xmp_data = Inr seg"
    and f: "final_data = take 2 jpeg_data @ seg @ drop 2 jpeg_data"
    unfolding process_jpeg_metadata_iff by blast
  from seg obtain xmp_bytes hi lo where
    "encode_utf8 xmp_data = Inr xmp_bytes"
    "2 + length xmp_header + length xmp_bytes < 0x10000"
    "256 * unat hi + unat lo = 2 + length xmp_header + length xmp_bytes"
    "seg = xmp_marker @ [hi, lo] @ xmp_header @ xmp_bytes"
    unfolding xmp_segment_iff by blast
  with a f show ?R
    by (intro exI [of _ img] exI [of _ tags] exI [of _ jpeg_data] exI [of _ xmp_data]
          exI [of _ xmp_bytes] exI [of _ hi] exI [of _ lo]) simp
next
  assume ?R
  then obtain img tags jpeg_data xmp_data xmp_bytes hi lo where
    a: "image_open lib image_data = Inr img" "exif_tags_of m = Inr tags"
      "save_jpeg lib img tags = Inr jpeg_data" "create_xmp_packet m = Inr xmp_data"
    and x: "encode_utf8 xmp_data = Inr xmp_bytes"
      "2 + length xmp_header + length xmp_bytes < 0x10000"
      "256 * unat hi + unat lo = 2 + length xmp_header + length xmp_bytes"
    and f: "final_data = take 2 jpeg_data @ xmp_marker @ [hi, lo] @ xmp_header @ xmp_bytes
                @ drop 2 jpeg_data"
    by blast
  from x have "xmp_segment xmp_data = Inr (xmp_marker @ [hi, lo] @ xmp_header @ xmp_bytes)"
    unfolding xmp_segment_iff by blast
  with a f show ?L
    unfolding process_jpeg_metadata_iff
    by (intro exI [of _ img] exI [of _ tags] exI [of _ jpeg_data] exI [of _ xmp_data]
          exI [of _ "xmp_marker @ [hi, lo] @ xmp_header @ xmp_bytes"]) simp
qed


lemma encode_utf8_ascii: "list_all (\<lambda>c. c < 0x80) s \<Longrightarrow> encode_utf8 s = Inr (map of_nat s)"
  by (induction s) (simp_all add: utf8_char_def)

lemma lits_ascii:
  "list_all (\<lambda>c. c < 0x80) xmp_lit_title_index"
  "list_all (\<lambda>c. c < 0x80) xmp_lit_title_app"
  "list_all (\<lambda>c. c < 0x80) xmp_lit_description"
  "list_all (\<lambda>c. c < 0x80) xmp_lit_creator"
  "list_all (\<lambda>c. c < 0x80) xmp_lit_rights"
  "list_all (\<lambda>c. c < 0x80) xmp_lit_subject"
  "list_all (\<lambda>c. c < 0x80) xmp_lit_headline"
  "list_all (\<lambda>c. c < 0x80) xmp_lit_credit"
  "list_all (\<lambda>c. c < 0x80) xmp_lit_source"
  "list_all (\<lambda>c. c < 0x80) xmp_lit_date_created"
  "list_all (\<lambda>c. c < 0x80) xmp_lit_category"
  "list_all (\<lambda>c. c < 0x80) xmp_lit_website"
  "list_all (\<lambda>c. c < 0x80) xmp_lit_phone"
  "list_all (\<lambda>c. c < 0x80) xmp_lit_end"
  by (simp_all add: xmp_lit_title_index_def xmp_lit_title_app_def xmp_lit_description_def
      xmp_lit_creator_def xmp_lit_rights_def xmp_lit_subject_def xmp_lit_headline_def
      xmp_lit_credit_def xmp_lit_source_def xmp_lit_date_created_def xmp_lit_category_def
      xmp_lit_website_def xmp_lit_phone_def xmp_lit_end_def ascii_def)

lemma lits_length:
  "length xmp_lit_title_index = 649"
  "length xmp_lit_title_app = 721"
  "length xmp_lit_description = 166"
  "length xmp_lit_creator = 147"
  "length xmp_lit_rights = 163"
  "length xmp_lit_subject = 114"
  "length xmp_lit_headline = 87"
  "length xmp_lit_credit = 52"
  "length xmp_lit_source = 50"
  "length xmp_lit_date_created = 55"
  "length xmp_lit_category = 57"
  "length xmp_lit_website = 202"
  "length xmp_lit_phone = 70"
  "length xmp_lit_end = 183"
  by (simp_all add: xmp_lit_title_index_def xmp_lit_title_app_def xmp_lit_description_def
      xmp_lit_creator_def xmp_lit_rights_def xmp_lit_subject_def xmp_lit_headline_def
      xmp_lit_credit_def xmp_lit_source_def xmp_lit_date_created_def xmp_lit_category_def
      xmp_lit_website_def xmp_lit_phone_def xmp_lit_end_def ascii_def)

lemma xmp_fstring_ascii:
  "list_all (\<lambda>c. c < 0x80) (xmp_fstring l a b c d e f g h i j k n) \<longleftrightarrow>
     list_all (\<lambda>c. c < 0x80) (l @ a @ b @ c @ d @ e @ f @ g @ h @ i @ j @ k @ n)"
  by (auto simp: xmp_fstring_def lits_ascii)

lemma length_xmp_fstring:
  "length (xmp_fstring l a b c d e f g h i j k n) =
     1346 + length (l @ a @ b @ c @ d @ e @ f @ g @ h @ i @ j @ k @ n)"
  by (simp add: xmp_fstring_def lits_length)

lemma ascii_Nil [simp]: "ascii [] = []"
  by (simp add: ascii_def)

lemma get_empty: "get Map.empty key dflt = PyStr (ascii dflt)"
  by (simp add: get_def)

lemma create_xmp_packet_empty: "create_xmp_packet Map.empty = Inr default_packet"
  by (simp add: create_xmp_packet_def create_xmp_packet_with_def get_empty default_packet_def
      keywords_of_def keywords_xml_of_def strip_def)

lemma default_packet_ascii: "list_all (\<lambda>c. c < 0x80) default_packet"
  by (simp add: default_packet_def xmp_fstring_ascii lits_ascii) (simp add: ascii_def)

lemma length_default_packet: "length default_packet = 2085"
  by (simp add: default_packet_def length_xmp_fstring lits_length) (simp add: ascii_def)

lemma xmp_segment_default_packet:
  "xmp_segment default_packet = Inr (xmp_marker @ [8, 68] @ xmp_header @ map of_nat default_packet)"
  by (simp add: xmp_segment_def encode_utf8_ascii default_packet_ascii length_default_packet
      length_xmp_header to_bytes_2_big_def)

lemma exif_tags_of_empty:
  "exif_tags_of Map.empty =
     Inr \<lparr>Artist = ascii_bytes ''GroundSwell'', Copyright = [], ImageDescription = [],
          UserComment = ascii_bytes ''ASCII'' @ [0x00, 0x00, 0x00]\<rparr>"
  by (simp add: exif_tags_of_def get_empty ascii_def ascii_bytes_def utf8_char_def)

section \<open>The inserted segment\<close>

text \<open>
  Claim C1. A marker-framed embed succeeds exactly when the stream begins with the
  start-of-image marker (\<open>app.py\<close>; \<open>api/index.py\<close> takes the stream from the codec),
  the packet can be encoded and the segment length fits two bytes. Its output is then
  the first two bytes, followed at once by the marker \<open>FF E1\<close> of the XMP segment, by
  two bytes that are the big-endian value of 2 + the length of the NUL-terminated
  namespace identifier + the length of the UTF-8 packet, by the identifier, by the
  packet, and by the rest of the stream.
\<close>

theorem xmp_segment_follows_soi:
  "(embed_xmp_in_jpeg fs file_path xmp_data = Inr (fs', True) \<longleftrightarrow>
      (\<exists>data xmp_bytes hi lo.
         fs file_path = Some data \<and> take 2 data = soi
         \<and> encode_utf8 xmp_data = Inr xmp_bytes
         \<and> 2 + length xmp_header + length xmp_bytes < 0x10000
         \<and> 256 * unat hi + unat lo = 2 + length xmp_header + length xmp_bytes
         \<and> fs' = fs(file_path \<mapsto>
              soi @ xmp_marker @ [hi, lo] @ xmp_header @ xmp_bytes @ drop 2 data)))
   \<and> (process_jpeg_metadata lib image_data m = Inr final_data \<longleftrightarrow>
      (\<exists>img tags jpeg_data xmp_data xmp_bytes hi lo.
         image_open lib image_data = Inr img \<and> exif_tags_of m = Inr tags
         \<and> save_jpeg lib img tags = Inr jpeg_data \<and> create_xmp_packet m = Inr xmp_data
         \<and> encode_utf8 xmp_data = Inr xmp_bytes
         \<and> 2 + length xmp_header + length xmp_bytes < 0x10000
         \<and> 256 * unat hi + unat lo = 2 + length xmp_header + length xmp_bytes
         \<and> final_data =
              take 2 jpeg_data @ xmp_marker @ [hi, lo] @ xmp_header @ xmp_bytes
                @ drop 2 jpeg_data))"
  by (rule conjI [OF embed_xmp_in_jpeg_layout process_jpeg_metadata_layout])

theorem xmp_segment_follows_soi_witness:
  "embed_xmp_in_jpeg [ascii ''out.jpg'' \<mapsto> soi @ [0xFF, 0xD9]] (ascii ''out.jpg'') (ascii ''<x/>'')
     = Inr ([ascii ''out.jpg'' \<mapsto>
              soi @ xmp_marker @ [0, 35] @ xmp_header @ ascii_bytes ''<x/>'' @ [0xFF, 0xD9]], True)
   \<and> process_jpeg_metadata echo_library [0xFF, 0xD9] Map.empty
     = Inr (soi @ xmp_marker @ [8, 68] @ xmp_header @ map of_nat default_packet @ [0xFF, 0xD9])"
proof (rule conjI)
  show "embed_xmp_in_jpeg [ascii ''out.jpg'' \<mapsto> soi @ [0xFF, 0xD9]] (ascii ''out.jpg'') (ascii ''<x/>'')
     = Inr ([ascii ''out.jpg'' \<mapsto>
              soi @ xmp_marker @ [0, 35] @ xmp_header @ ascii_bytes ''<x/>'' @ [0xFF, 0xD9]], True)"
    by (rule xmp_segment_follows_soi [THEN conjunct1, THEN iffD2],
        rule exI [of _ "soi @ [0xFF, 0xD9]"], rule exI [of _ "ascii_bytes ''<x/>''"],
        rule exI [of _ 0], rule exI [of _ 35])
       (simp add: soi_def length_xmp_header ascii_def ascii_bytes_def utf8_char_def)
  show "process_jpeg_metadata echo_library [0xFF, 0xD9] Map.empty
     = Inr (soi @ xmp_marker @ [8, 68] @ xmp_header @ map of_nat default_packet @ [0xFF, 0xD9])"
    by (rule xmp_segment_follows_soi [THEN conjunct2, THEN iffD2],
        rule exI [of _ "[0xFF, 0xD9]"],
        rule exI [of _ "\<lparr>Artist = ascii_bytes ''GroundSwell'', Copyright = [],
          ImageDescription = [], UserComment = ascii_bytes ''ASCII'' @ [0x00, 0x00, 0x00]\<rparr>"],
        rule exI [of _ "soi @ [0xFF, 0xD9]"], rule exI [of _ default_packet],
        rule exI [of _ "map of_nat default_packet"], rule exI [of _ 8], rule exI [of _ 68])
       (simp add: echo_library_def exif_tags_of_empty create_xmp_packet_empty
          encode_utf8_ascii default_packet_ascii length_default_packet length_xmp_header soi_def)
qed

section \<open>A packet too large for the length field\<close>

lemma encode_utf8_replicate_a: "encode_utf8 (replicate n 0x61) = Inr (replicate n 0x61)"
  by (induction n) (simp_all add: utf8_char_def)

lemma embed_xmp_in_jpeg_no_soi:
  "fs file_path = Some data \<Longrightarrow> take 2 data \<noteq> soi
   \<Longrightarrow> embed_xmp_in_jpeg fs file_path xmp_data = Inr (fs, False)"
  by (simp add: embed_xmp_in_jpeg_def embed_xmp_in_jpeg_try_def read_file_def)

lemma embed_xmp_in_jpeg_segment_error:
  "xmp_segment xmp_data = Inl e \<Longrightarrow> embed_xmp_in_jpeg fs file_path xmp_data = Inr (fs, False)"
  by (cases "fs file_path")
     (simp_all add: embed_xmp_in_jpeg_def embed_xmp_in_jpeg_try_def read_file_def)

lemma process_jpeg_metadata_steps:
  "image_open lib image_data = Inr img \<Longrightarrow> exif_tags_of m = Inr tags
   \<Longrightarrow> save_jpeg lib img tags = Inr jpeg_data \<Longrightarrow> create_xmp_packet m = Inr xmp_data
   \<Longrightarrow> process_jpeg_metadata lib image_data m =
       and_then (xmp_segment xmp_data) (\<lambda>segment. Inr (insert_after_soi jpeg_data segment))"
  by (simp add: process_jpeg_metadata_def)

text \<open>
  Claim C4, as the code has it. When the computed segment length exceeds 65535 the
  conversion of the length to two bytes raises \<open>OverflowError\<close>: no statement compares
  the length with the bound, and no byte of the length is dropped. In \<open>api/index.py\<close>
  the exception leaves \<open>process_jpeg_metadata\<close>. In \<open>app.py\<close> the handler of
  \<open>embed_xmp_in_jpeg\<close> catches it: the call returns \<open>False\<close> and the file is unchanged.
\<close>

theorem oversize_packet_overflow:
  "encode_utf8 xmp_data = Inr xmp_bytes \<Longrightarrow> 0xFFFF < 2 + length xmp_header + length xmp_bytes \<Longrightarrow>
     xmp_segment xmp_data = Inl OverflowError
     \<and> embed_xmp_in_jpeg fs file_path xmp_data = Inr (fs, False)
     \<and> (image_open lib image_data = Inr img \<and> exif_tags_of m = Inr tags
          \<and> save_jpeg lib img tags = Inr jpeg_data \<and> create_xmp_packet m = Inr xmp_data
        \<longrightarrow> process_jpeg_metadata lib image_data m = Inl OverflowError)"
  by (simp add: xmp_segment_overflow embed_xmp_in_jpeg_segment_error process_jpeg_metadata_steps)

lemma ascii_eq_iff: "ascii a = ascii b \<longleftrightarrow> a = b"
  unfolding ascii_def by (rule inj_map_eq_map) (simp add: inj_def)

lemma get_oversize:
  "get oversize_metadata ''xmp_title'' '''' = PyStr (replicate 70000 0x61)"
  "key \<noteq> ''xmp_title'' \<Longrightarrow> get oversize_metadata key dflt = PyStr (ascii dflt)"
  by (simp_all add: get_def oversize_metadata_def ascii_eq_iff)

lemma create_xmp_packet_with_oversize:
  "create_xmp_packet_with lit oversize_metadata = Inr (oversize_packet lit)"
  by (simp add: create_xmp_packet_with_def get_oversize oversize_packet_def
      keywords_of_def keywords_xml_of_def strip_def)

lemma encode_oversize_packet:
  "list_all (\<lambda>c. c < 0x80) lit \<Longrightarrow>
   encode_utf8 (oversize_packet lit) = Inr (map of_nat (oversize_packet lit))"
  by (rule encode_utf8_ascii)
     (simp add: oversize_packet_def xmp_fstring_ascii, simp add: ascii_def list_all_iff)

lemma length_oversize_packet: "70000 < length (oversize_packet lit)"
  by (simp add: oversize_packet_def length_xmp_fstring)

lemma exif_tags_of_oversize:
  "exif_tags_of oversize_metadata =
     Inr \<lparr>Artist = ascii_bytes ''GroundSwell'', Copyright = [], ImageDescription = [],
          UserComment = ascii_bytes ''ASCII'' @ [0x00, 0x00, 0x00]\<rparr>"
  by (simp add: exif_tags_of_def get_oversize) (simp add: ascii_def ascii_bytes_def utf8_char_def)

theorem oversize_packet_overflow_witness:
  "process_jpeg_metadata echo_library [0xFF, 0xD9] oversize_metadata = Inl OverflowError
   \<and> xmp_segment (oversize_packet xmp_lit_title_index) = Inl OverflowError"
proof -
  have enc: "encode_utf8 (oversize_packet xmp_lit_title_index)
      = Inr (map of_nat (oversize_packet xmp_lit_title_index))"
    by (simp add: encode_oversize_packet lits_ascii)
  have len: "0xFFFF < 2 + length xmp_header
      + length (map of_nat (oversize_packet xmp_lit_title_index) :: bytes)"
    using length_oversize_packet [of xmp_lit_title_index] by simp
  have steps: "image_open echo_library [0xFF, 0xD9] = Inr [0xFF, 0xD9]
      \<and> exif_tags_of oversize_metadata =
          Inr \<lparr>Artist = ascii_bytes ''GroundSwell'', Copyright = [], ImageDescription = [],
               UserComment = ascii_bytes ''ASCII'' @ [0x00, 0x00, 0x00]\<rparr>
      \<and> save_jpeg echo_library [0xFF, 0xD9]
            \<lparr>Artist = ascii_bytes ''GroundSwell'', Copyright = [], ImageDescription = [],
               UserComment = ascii_bytes ''ASCII'' @ [0x00, 0x00, 0x00]\<rparr>
          = Inr (soi @ [0xFF, 0xD9])
      \<and> create_xmp_packet oversize_metadata = Inr (oversize_packet xmp_lit_title_index)"
    by (simp add: echo_library_def exif_tags_of_oversize create_xmp_packet_def
        create_xmp_packet_with_oversize)
  show ?thesis
    using oversize_packet_overflow [OF enc len, where lib = echo_library
        and image_data = "[0xFF, 0xD9]" and img = "[0xFF, 0xD9]" and m = oversize_metadata
        and tags = "\<lparr>Artist = ascii_bytes ''GroundSwell'', Copyright = [], ImageDescription = [],
               UserComment = ascii_bytes ''ASCII'' @ [0x00, 0x00, 0x00]\<rparr>"
        and jpeg_data = "soi @ [0xFF, 0xD9]"] steps
    by simp
qed

lemma write_metadata_to_jpeg_oversize:
  "write_metadata_to_jpeg echo_library [ascii ''in.jpg'' \<mapsto> [0xFF, 0xD9]]
       (ascii ''in.jpg'') (ascii ''out.jpg'') oversize_metadata
     = Inr ([ascii ''in.jpg'' \<mapsto> [0xFF, 0xD9], ascii ''out.jpg'' \<mapsto> soi @ [0xFF, 0xD9]], True)"
proof -
  have enc: "encode_utf8 (oversize_packet xmp_lit_title_app)
      = Inr (map of_nat (oversize_packet xmp_lit_title_app))"
    by (simp add: encode_oversize_packet lits_ascii)
  have len: "0xFFFF < 2 + length xmp_header
      + length (map of_nat (oversize_packet xmp_lit_title_app) :: bytes)"
    using length_oversize_packet [of xmp_lit_title_app] by simp
  have seg: "xmp_segment (oversize_packet xmp_lit_title_app) = Inl OverflowError"
    by (rule xmp_segment_overflow [OF enc len])
  show ?thesis
    by (simp add: write_metadata_to_jpeg_def write_metadata_to_jpeg_try_def read_file_def
        raised_in_def echo_library_def exif_tags_of_oversize create_xmp_packet_app_def
        create_xmp_packet_with_oversize embed_xmp_in_jpeg_segment_error [OF seg])
qed

lemma write_metadata_to_jpeg_save_raises:
  "fs file_path = Some data \<Longrightarrow> image_open lib data = Inr img
   \<Longrightarrow> exif_tags_of m = Inr tags \<Longrightarrow> create_xmp_packet_app m = Inr xmp_data
   \<Longrightarrow> save_jpeg lib img tags = Inl e
   \<Longrightarrow> write_metadata_to_jpeg lib fs file_path output_path m
       = Inr (failed_save_jpeg lib img tags fs output_path, False)"
  by (simp add: write_metadata_to_jpeg_def write_metadata_to_jpeg_try_def read_file_def
      raised_in_def)

text \<open>
  The claim as stated fails in \<open>app.py\<close>: for a packet of 65505 bytes the segment
  length is 65536, and \<open>embed_xmp_in_jpeg\<close> returns \<open>False\<close> without an error; for the
  dictionary \<open>oversize_metadata\<close> the writer \<open>write_metadata_to_jpeg\<close> returns \<open>True\<close>,
  the output being the stream of the codec with no XMP segment.
\<close>

theorem oversize_packet_returns_False:
  "encode_utf8 (replicate 65505 0x61) = Inr (replicate 65505 0x61)
   \<and> 2 + length xmp_header + length (replicate 65505 (0x61 :: byte)) = 0x10000
   \<and> embed_xmp_in_jpeg [ascii ''out.jpg'' \<mapsto> soi @ [0xFF, 0xD9]] (ascii ''out.jpg'')
        (replicate 65505 0x61)
      = Inr ([ascii ''out.jpg'' \<mapsto> soi @ [0xFF, 0xD9]], False)
   \<and> write_metadata_to_jpeg echo_library [ascii ''in.jpg'' \<mapsto> [0xFF, 0xD9]]
        (ascii ''in.jpg'') (ascii ''out.jpg'') oversize_metadata
      = Inr ([ascii ''in.jpg'' \<mapsto> [0xFF, 0xD9], ascii ''out.jpg'' \<mapsto> soi @ [0xFF, 0xD9]], True)"
  by (simp add: encode_utf8_replicate_a length_xmp_header embed_xmp_in_jpeg_segment_error
      xmp_segment_overflow [OF encode_utf8_replicate_a] write_metadata_to_jpeg_oversize)

section \<open>A stream without the start-of-image marker\<close>



text \<open>
  Claim C5, as the code has it. When the file does not begin with the start-of-image
  marker, \<open>embed_xmp_in_jpeg\<close> of \<open>app.py\<close> returns \<open>False\<close> and leaves the file
  unchanged; it raises nothing. \<open>process_jpeg_metadata\<close> of \<open>api/index.py\<close> tests no
  signature: whenever the library opens the input and the codec writes a stream, the
  segment is inserted after the first two bytes of that stream.
\<close>

theorem missing_signature_returns_False:
  "(fs file_path = Some data \<and> take 2 data \<noteq> soi
      \<longrightarrow> embed_xmp_in_jpeg fs file_path xmp_data = Inr (fs, False))
   \<and> (take 2 image_data \<noteq> soi \<and> image_open lib image_data = Inr img
        \<and> exif_tags_of m = Inr tags \<and> save_jpeg lib img tags = Inr jpeg_data
        \<and> create_xmp_packet m = Inr packet \<and> xmp_segment packet = Inr seg
      \<longrightarrow> process_jpeg_metadata lib image_data m
            = Inr (take 2 jpeg_data @ seg @ drop 2 jpeg_data))"
  by (simp add: embed_xmp_in_jpeg_no_soi process_jpeg_metadata_steps insert_after_soi_def)

theorem missing_signature_returns_False_witness:
  "embed_xmp_in_jpeg [ascii ''out.jpg'' \<mapsto> [0x89, 0x50, 0x4E, 0x47]] (ascii ''out.jpg'')
       (ascii ''<x/>'')
     = Inr ([ascii ''out.jpg'' \<mapsto> [0x89, 0x50, 0x4E, 0x47]], False)
   \<and> process_jpeg_metadata echo_library [0x89, 0x50, 0x4E, 0x47] Map.empty
     = Inr (soi @ (xmp_marker @ [8, 68] @ xmp_header @ map of_nat default_packet)
              @ [0x89, 0x50, 0x4E, 0x47])"
  using missing_signature_returns_False [where fs = "[ascii ''out.jpg'' \<mapsto> [0x89, 0x50, 0x4E, 0x47]]"
      and file_path = "ascii ''out.jpg''" and data = "[0x89, 0x50, 0x4E, 0x47]"
      and xmp_data = "ascii ''<x/>''" and image_data = "[0x89, 0x50, 0x4E, 0x47]"
      and lib = echo_library and img = "[0x89, 0x50, 0x4E, 0x47]" and m = Map.empty
      and tags = "\<lparr>Artist = ascii_bytes ''GroundSwell'', Copyright = [], ImageDescription = [],
               UserComment = ascii_bytes ''ASCII'' @ [0x00, 0x00, 0x00]\<rparr>"
      and jpeg_data = "soi @ [0x89, 0x50, 0x4E, 0x47]" and packet = default_packet
      and seg = "xmp_marker @ [8, 68] @ xmp_header @ map of_nat default_packet"]
  by (simp add: soi_def echo_library_def exif_tags_of_empty create_xmp_packet_empty
      xmp_segment_default_packet)

text \<open>
  The claim as stated fails: on a file that begins with the PNG signature the call
  returns normally, with the value \<open>False\<close>.
\<close>

theorem missing_signature_no_error:
  "take 2 [0x89, 0x50, 0x4E, 0x47] \<noteq> soi
   \<and> embed_xmp_in_jpeg [ascii ''out.jpg'' \<mapsto> [0x89, 0x50, 0x4E, 0x47]] (ascii ''out.jpg'')
       (ascii ''<x/>'')
     = Inr ([ascii ''out.jpg'' \<mapsto> [0x89, 0x50, 0x4E, 0x47]], False)"
  by (simp add: embed_xmp_in_jpeg_no_soi soi_def)

section \<open>A stream that already carries an XMP segment\<close>





lemma create_xmp_packet_app_empty: "create_xmp_packet_app Map.empty = Inr default_packet_app"
  by (simp add: create_xmp_packet_app_def create_xmp_packet_with_def get_empty
      default_packet_app_def keywords_of_def keywords_xml_of_def strip_def)

lemma default_packet_app_ascii: "list_all (\<lambda>c. c < 0x80) default_packet_app"
  by (simp add: default_packet_app_def xmp_fstring_ascii lits_ascii) (simp add: ascii_def)

lemma length_default_packet_app: "length default_packet_app = 2157"
  by (simp add: default_packet_app_def length_xmp_fstring lits_length) (simp add: ascii_def)




section \<open>Extensions outside the supported set\<close>

lemma copy2_other_file:
  "fs src = Some data \<Longrightarrow> src \<noteq> dst \<Longrightarrow> \<not> samefile lib src dst
   \<Longrightarrow> copy2 lib fs src dst = Inr (fs(dst \<mapsto> data))"
  by (simp add: copy2_def read_file_def)

lemma copy2_same_file:
  "fs src = Some data \<Longrightarrow> fs dst = Some data' \<Longrightarrow> samefile lib src dst
   \<Longrightarrow> copy2 lib fs src dst = Inl SameFileError"
  by (simp add: copy2_def)

text \<open>
  Claim C6. When the lower-cased suffix of the file name is none of \<open>.jpg\<close>, \<open>.jpeg\<close>
  and \<open>.png\<close>, the dispatch of \<open>api/index.py\<close> returns the input bytes themselves.
  The dispatch of \<open>app.py\<close> works on files: when the output path does not name the
  input file, under this or another spelling, it copies the input file to the output
  path and returns \<open>False\<close>, the flag that no metadata was written; neither raises.
\<close>

theorem unsupported_extension_passes_through:
  "(suffix_lower lib filename \<notin> {ascii ''.jpg'', ascii ''.jpeg'', ascii ''.png''}
      \<longrightarrow> process_image_metadata lib image_data filename m = Inr image_data)
   \<and> (suffix_lower lib file_path \<notin> {ascii ''.jpg'', ascii ''.jpeg'', ascii ''.png''}
        \<and> fs file_path = Some data \<and> file_path \<noteq> output_path
        \<and> \<not> samefile lib file_path output_path
      \<longrightarrow> write_metadata_to_image lib fs file_path output_path m
            = Inr (fs(output_path \<mapsto> data), False))"
  by (simp add: process_image_metadata_def write_metadata_to_image_def copy2_other_file)

theorem unsupported_extension_passes_through_witness:
  "process_image_metadata echo_library [0x47, 0x49, 0x46] (ascii ''.gif'') Map.empty
     = Inr [0x47, 0x49, 0x46]
   \<and> write_metadata_to_image echo_library [ascii ''.gif'' \<mapsto> [0x47, 0x49, 0x46]]
       (ascii ''.gif'') (ascii ''out.gif'') Map.empty
     = Inr ([ascii ''.gif'' \<mapsto> [0x47, 0x49, 0x46], ascii ''out.gif'' \<mapsto> [0x47, 0x49, 0x46]],
            False)"
  using unsupported_extension_passes_through [where lib = echo_library
      and filename = "ascii ''.gif''" and image_data = "[0x47, 0x49, 0x46]" and m = Map.empty
      and file_path = "ascii ''.gif''" and fs = "[ascii ''.gif'' \<mapsto> [0x47, 0x49, 0x46]]"
      and data = "[0x47, 0x49, 0x46]" and output_path = "ascii ''out.gif''"]
  by (simp add: echo_library_def ascii_eq_iff)

section \<open>The builder does not raise\<close>

lemma get_cases: "get m key dflt = PyStr (ascii dflt) \<or> (\<exists>v. m (ascii key) = Some v \<and> get m key dflt = v)"
  by (cases "m (ascii key)") (simp_all add: get_def)

lemma get_string_valued:
  "\<forall>k v. m k = Some v \<longrightarrow> (\<exists>s. v = PyStr s) \<Longrightarrow> \<exists>s. get m key dflt = PyStr s"
  using get_cases [of m key dflt] by auto

lemma create_xmp_packet_with_PyStr:
  "get m ''xmp_subject'' '''' = PyStr subj \<Longrightarrow>
   create_xmp_packet_with lit m =
     Inr (xmp_fstring lit (format (get m ''xmp_title'' '''')) (format (get m ''xmp_description'' ''''))
       (format (get m ''xmp_creator'' ''GroundSwell'')) (format (get m ''xmp_rights'' ''''))
       (keywords_xml_of (keywords_of subj)) (format (get m ''xmp_headline'' ''''))
       (format (get m ''xmp_credit'' ''GroundSwell'')) (format (get m ''xmp_source'' ''GroundSwell''))
       (format (get m ''xmp_date_created'' ''''))
       (format (get m ''xmp_category'' ''Business Ownership Platform''))
       (format (get m ''xmp_website'' ''www.groundswell.co''))
       (format (get m ''xmp_phone'' ''435-214-2997'')))"
  by (simp add: create_xmp_packet_with_def)

lemma create_xmp_packet_with_PyOther:
  "get m ''xmp_subject'' '''' = PyOther r \<Longrightarrow> create_xmp_packet_with lit m = Inl AttributeError"
  by (simp add: create_xmp_packet_with_def)

lemma create_xmp_packet_with_Inr_iff:
  "(\<exists>p. create_xmp_packet_with lit m = Inr p) \<longleftrightarrow> (\<forall>r. m (ascii ''xmp_subject'') \<noteq> Some (PyOther r))"
proof (cases "get m ''xmp_subject'' ''''")
  case (PyStr s)
  then have "\<forall>r. m (ascii ''xmp_subject'') \<noteq> Some (PyOther r)"
    by (auto simp: get_def)
  then show ?thesis
    using create_xmp_packet_with_PyStr [OF PyStr] by simp
next
  case (PyOther r)
  then have "m (ascii ''xmp_subject'') = Some (PyOther r)"
    by (auto simp: get_def split: option.splits)
  then show ?thesis
    using create_xmp_packet_with_PyOther [OF PyOther] by simp
qed

text \<open>
  Claim C9. For every dictionary whose values are strings, with any of the keys
  absent, both copies of \<open>create_xmp_packet\<close> return a packet. A missing title gives
  an empty element, a missing creator gives the default \<open>GroundSwell\<close>, and the empty
  dictionary gives the packet of the defaults.
\<close>

theorem create_xmp_packet_never_raises:
  assumes "\<forall>k v. m k = Some v \<longrightarrow> (\<exists>s. v = PyStr s)"
  shows "(\<exists>packet. create_xmp_packet m = Inr packet)
     \<and> (\<exists>packet. create_xmp_packet_app m = Inr packet)
     \<and> (m (ascii ''xmp_title'') = None \<longrightarrow>
          (\<exists>rest. create_xmp_packet m = Inr (xmp_lit_title_index @ xmp_lit_description @ rest)))
     \<and> (m (ascii ''xmp_creator'') = None \<longrightarrow>
          (\<exists>before rest. create_xmp_packet m
             = Inr (before @ xmp_lit_creator @ ascii ''GroundSwell'' @ xmp_lit_rights @ rest)))
     \<and> (m = Map.empty \<longrightarrow> create_xmp_packet m = Inr default_packet)"
proof -
  from assms obtain subj where subj: "get m ''xmp_subject'' '''' = PyStr subj"
    using get_string_valued by blast
  note p = create_xmp_packet_with_PyStr [OF subj]
  have 1: "\<exists>packet. create_xmp_packet m = Inr packet"
    unfolding create_xmp_packet_def p by blast
  have 2: "\<exists>packet. create_xmp_packet_app m = Inr packet"
    unfolding create_xmp_packet_app_def p by blast
  have 3: "\<exists>rest. create_xmp_packet m = Inr (xmp_lit_title_index @ xmp_lit_description @ rest)"
    if "m (ascii ''xmp_title'') = None"
    using that unfolding create_xmp_packet_def p by (simp add: get_def xmp_fstring_def)
  have 4: "\<exists>before rest. create_xmp_packet m
             = Inr (before @ xmp_lit_creator @ ascii ''GroundSwell'' @ xmp_lit_rights @ rest)"
    if "m (ascii ''xmp_creator'') = None"
  proof -
    from that have "get m ''xmp_creator'' ''GroundSwell'' = PyStr (ascii ''GroundSwell'')"
      by (simp add: get_def)
    then show ?thesis
      unfolding create_xmp_packet_def p xmp_fstring_def
      by (metis append.assoc format.simps(1))
  qed
  have 5: "create_xmp_packet m = Inr default_packet" if "m = Map.empty"
    using that by (simp add: create_xmp_packet_empty)
  show ?thesis
    using 1 2 3 4 5 by blast
qed

theorem create_xmp_packet_never_raises_witness:
  "create_xmp_packet Map.empty = Inr default_packet
   \<and> (\<exists>rest. create_xmp_packet [ascii ''xmp_headline'' \<mapsto> PyStr (ascii ''H'')]
         = Inr (xmp_lit_title_index @ xmp_lit_description @ rest))"
  using create_xmp_packet_never_raises [of Map.empty]
    create_xmp_packet_never_raises [of "[ascii ''xmp_headline'' \<mapsto> PyStr (ascii ''H'')]"]
  by (simp add: ascii_eq_iff)

section \<open>The keyword entries\<close>

lemma strip_eq_Nil_iff: "strip t = [] \<longleftrightarrow> (\<forall>c \<in> set t. isspace c)"
proof (cases "dropWhile isspace t")
  case Nil
  have "strip t = []"
    by (simp add: strip_def Nil)
  moreover have "\<forall>c \<in> set t. isspace c"
    using Nil by simp
  ultimately show ?thesis
    by simp
next
  case (Cons a as)
  then have "\<not> isspace a"
    using hd_dropWhile [of isspace t] by simp
  moreover have "a \<in> set t"
    using Cons set_dropWhileD [of a isspace t] by simp
  moreover have "strip t \<noteq> []"
    using Cons \<open>\<not> isspace a\<close> by (auto simp: strip_def)
  ultimately show ?thesis
    by blast
qed

lemma set_strip: "set (strip t) \<subseteq> set t"
proof
  fix c assume "c \<in> set (strip t)"
  then have "c \<in> set (dropWhile isspace (rev (dropWhile isspace t)))"
    by (simp add: strip_def)
  then have "c \<in> set (rev (dropWhile isspace t))"
    by (rule set_dropWhileD)
  then show "c \<in> set t"
    by (auto dest: set_dropWhileD)
qed

lemma split_not_Nil: "split sep s \<noteq> []"
  by (induction s) (auto split: list.splits)

lemma set_split: "t \<in> set (split sep s) \<Longrightarrow> set t \<subseteq> set s"
proof (induction s arbitrary: t)
  case Nil
  then show ?case by simp
next
  case (Cons c cs)
  show ?case
  proof (cases "c = sep")
    case True
    with Cons show ?thesis by auto
  next
    case False
    obtain u us where u: "split sep cs = u # us"
      using split_not_Nil [of sep cs] by (cases "split sep cs") auto
    with False Cons.prems have "t = c # u \<or> t \<in> set us"
      by auto
    then show ?thesis
      using Cons.IH [of u] Cons.IH [of t] u by auto
  qed
qed

lemma token_count_split:
  "token_count seen s =
     (if seen \<or> (\<exists>c \<in> set (hd (split 0x2C s)). \<not> isspace c) then 1 else 0)
     + length (filter (\<lambda>t. \<exists>c \<in> set t. \<not> isspace c) (tl (split 0x2C s)))"
proof (induction s arbitrary: seen)
  case Nil
  show ?case by simp
next
  case (Cons c cs)
  obtain u us where u: "split 0x2C cs = u # us"
    using split_not_Nil [of "0x2C" cs] by (cases "split 0x2C cs") auto
  show ?case
  proof (cases "c = 0x2C")
    case True
    then show ?thesis
      using Cons.IH [of False] u by simp
  next
    case False
    then show ?thesis
      using Cons.IH [of "seen \<or> \<not> isspace c"] u by auto
  qed
qed

lemma length_keywords_of: "length (keywords_of s) = nonempty_token_count s"
proof -
  obtain u us where u: "split 0x2C s = u # us"
    using split_not_Nil [of "0x2C" s] by (cases "split 0x2C s") auto
  show ?thesis
    unfolding keywords_of_def nonempty_token_count_def token_count_split [of False s]
    by (simp add: u strip_eq_Nil_iff)
qed

lemma keywords_of_no_lt: "0x3C \<notin> set s \<Longrightarrow> kw \<in> set (keywords_of s) \<Longrightarrow> 0x3C \<notin> set kw"
  using set_split set_strip by (fastforce simp: keywords_of_def)

lemma occurrences_skip:
  "pat \<noteq> [] \<Longrightarrow> hd pat \<notin> set x \<Longrightarrow> occurrences pat (x @ y) = occurrences pat y"
proof (induction x)
  case Nil
  show ?case by simp
next
  case (Cons c cs)
  from Cons.prems have "take (length pat) (c # cs @ y) \<noteq> pat"
    by (cases pat) auto
  with Cons show ?case by simp
qed

lemma occurrences_li_open:
  "occurrences (ascii ''<rdf:li>'') (ascii ''<rdf:li>'' @ y) = 1 + occurrences (ascii ''<rdf:li>'') y"
proof -
  have "occurrences (ascii ''<rdf:li>'') (ascii ''rdf:li>'' @ y) = occurrences (ascii ''<rdf:li>'') y"
    by (rule occurrences_skip) (simp_all add: ascii_def)
  moreover have "ascii ''<rdf:li>'' @ y = 0x3C # ascii ''rdf:li>'' @ y"
    by (simp add: ascii_def)
  moreover have "take (length (ascii ''<rdf:li>'')) (0x3C # ascii ''rdf:li>'' @ y) = ascii ''<rdf:li>''"
    by (simp add: ascii_def)
  ultimately show ?thesis
    by simp
qed

lemma occurrences_li_close:
  "occurrences (ascii ''<rdf:li>'') (ascii ''</rdf:li>'' @ y) = occurrences (ascii ''<rdf:li>'') y"
proof -
  have "occurrences (ascii ''<rdf:li>'') (ascii ''/rdf:li>'' @ y) = occurrences (ascii ''<rdf:li>'') y"
    by (rule occurrences_skip) (simp_all add: ascii_def)
  moreover have "ascii ''</rdf:li>'' @ y = 0x3C # ascii ''/rdf:li>'' @ y"
    by (simp add: ascii_def)
  moreover have "take (length (ascii ''<rdf:li>'')) (0x3C # ascii ''/rdf:li>'' @ y) \<noteq> ascii ''<rdf:li>''"
    by (simp add: ascii_def)
  ultimately show ?thesis
    by simp
qed

lemma occurrences_keyword_li:
  assumes "0x3C \<notin> set kw"
  shows "occurrences (ascii ''<rdf:li>'') (keyword_li kw @ y) = 1 + occurrences (ascii ''<rdf:li>'') y"
proof -
  have "occurrences (ascii ''<rdf:li>'') (keyword_li kw @ y)
      = occurrences (ascii ''<rdf:li>'') (ascii ''<rdf:li>'' @ kw @ ascii ''</rdf:li>'' @ y)"
    using occurrences_skip [of "ascii ''<rdf:li>''" "ascii ''                        ''"
        "ascii ''<rdf:li>'' @ kw @ ascii ''</rdf:li>'' @ y"]
    by (simp add: keyword_li_def ascii_def)
  also have "\<dots> = 1 + occurrences (ascii ''<rdf:li>'') (kw @ ascii ''</rdf:li>'' @ y)"
    by (rule occurrences_li_open)
  also have "occurrences (ascii ''<rdf:li>'') (kw @ ascii ''</rdf:li>'' @ y)
      = occurrences (ascii ''<rdf:li>'') (ascii ''</rdf:li>'' @ y)"
    using assms by (intro occurrences_skip) (simp_all add: ascii_def)
  also have "\<dots> = occurrences (ascii ''<rdf:li>'') y"
    by (rule occurrences_li_close)
  finally show ?thesis .
qed

lemma occurrences_join_li:
  "\<forall>kw \<in> set kws. 0x3C \<notin> set kw \<Longrightarrow>
   occurrences (ascii ''<rdf:li>'') (join [0x0A] (map keyword_li kws) @ y)
     = length kws + occurrences (ascii ''<rdf:li>'') y"
proof (induction kws)
  case Nil
  show ?case by simp
next
  case (Cons k ks)
  show ?case
  proof (cases ks)
    case Nil
    with Cons.prems show ?thesis
      by (simp add: occurrences_keyword_li)
  next
    case (Cons k' ks')
    have nl: "occurrences (ascii ''<rdf:li>'') ([0x0A] @ z) = occurrences (ascii ''<rdf:li>'') z" for z
      by (rule occurrences_skip) (simp_all add: ascii_def)
    have "join [0x0A] (map keyword_li (k # ks)) @ y
        = keyword_li k @ [0x0A] @ join [0x0A] (map keyword_li ks) @ y"
      using Cons by simp
    then show ?thesis
      using Cons.prems Cons.IH nl by (simp add: occurrences_keyword_li del: append.simps)
  qed
qed

lemma create_xmp_packet_with_bag:
  "get m ''xmp_subject'' '''' = PyStr subject \<Longrightarrow>
   \<exists>before rest. create_xmp_packet_with lit m
      = Inr (before @ xmp_lit_subject @ join [0x0A] (map keyword_li (keywords_of subject))
               @ xmp_lit_headline @ rest)"
  unfolding create_xmp_packet_with_PyStr xmp_fstring_def keywords_xml_of_def
  by (metis append.assoc)

text \<open>
  Claim C3, as the code has it. For a keyword field that is a string (or absent),
  the text between the opening and the closing tag of the Bag is exactly one line
  \<open><rdf:li>keyword</rdf:li>\<close> for each non-empty trimmed token of the field, joined by
  newlines, and the number of these lines is the number \<open>N\<close> of such tokens. Keywords
  are inserted verbatim: when the field contains no \<open><\<close> the Bag holds exactly \<open>N\<close>
  opening tags \<open><rdf:li>\<close>.
\<close>

theorem keyword_entries:
  assumes "get m ''xmp_subject'' '''' = PyStr subject"
  shows "(\<exists>before rest. create_xmp_packet m
            = Inr (before @ xmp_lit_subject @ join [0x0A] (map keyword_li (keywords_of subject))
                     @ xmp_lit_headline @ rest))
     \<and> (\<exists>before rest. create_xmp_packet_app m
            = Inr (before @ xmp_lit_subject @ join [0x0A] (map keyword_li (keywords_of subject))
                     @ xmp_lit_headline @ rest))
     \<and> length (keywords_of subject) = nonempty_token_count subject
     \<and> (0x3C \<notin> set subject \<longrightarrow>
          occurrences (ascii ''<rdf:li>'') (join [0x0A] (map keyword_li (keywords_of subject)))
            = nonempty_token_count subject)"
proof -
  have "occurrences (ascii ''<rdf:li>'') (join [0x0A] (map keyword_li (keywords_of subject)))
      = nonempty_token_count subject" if "0x3C \<notin> set subject"
    using occurrences_join_li [of "keywords_of subject" "[]"] keywords_of_no_lt [OF that]
    by (simp add: length_keywords_of)
  then show ?thesis
    using create_xmp_packet_with_bag [OF assms]
    by (simp add: create_xmp_packet_def create_xmp_packet_app_def length_keywords_of)
qed

theorem keyword_entries_witness:
  "keywords_of (ascii ''growth, flywheel,, GroundSwell , '')
     = [ascii ''growth'', ascii ''flywheel'', ascii ''GroundSwell'']
   \<and> nonempty_token_count (ascii ''growth, flywheel,, GroundSwell , '') = 3
   \<and> occurrences (ascii ''<rdf:li>'')
        (join [0x0A] (map keyword_li (keywords_of (ascii ''growth, flywheel,, GroundSwell , '')))) = 3
   \<and> (\<exists>before rest.
        create_xmp_packet [ascii ''xmp_subject'' \<mapsto> PyStr (ascii ''growth, flywheel,, GroundSwell , '')]
          = Inr (before @ xmp_lit_subject
                   @ join [0x0A] (map keyword_li
                       [ascii ''growth'', ascii ''flywheel'', ascii ''GroundSwell''])
                   @ xmp_lit_headline @ rest))"
proof -
  have kw: "keywords_of (ascii ''growth, flywheel,, GroundSwell , '')
     = [ascii ''growth'', ascii ''flywheel'', ascii ''GroundSwell'']"
    by (simp add: keywords_of_def strip_def ascii_def isspace_def)
  have g: "get [ascii ''xmp_subject'' \<mapsto> PyStr (ascii ''growth, flywheel,, GroundSwell , '')]
      ''xmp_subject'' '''' = PyStr (ascii ''growth, flywheel,, GroundSwell , '')"
    by (simp add: get_def)
  have lt: "0x3C \<notin> set (ascii ''growth, flywheel,, GroundSwell , '')"
    by (simp add: ascii_def)
  show ?thesis
    using keyword_entries [OF g] lt kw by simp
qed

text \<open>
  The claim as stated fails for a keyword that contains markup: the field
  \<open>a</rdf:li><rdf:li>b\<close> has one token, and the Bag of the built packet holds two
  entries.
\<close>

theorem keyword_markup_adds_entries:
  "nonempty_token_count (ascii ''a</rdf:li><rdf:li>b'') = 1
   \<and> keywords_xml_of (keywords_of (ascii ''a</rdf:li><rdf:li>b''))
       = ascii ''                        <rdf:li>a</rdf:li><rdf:li>b</rdf:li>''
   \<and> occurrences (ascii ''<rdf:li>'') (keywords_xml_of (keywords_of (ascii ''a</rdf:li><rdf:li>b'')))
       = 2
   \<and> (\<exists>before rest.
         create_xmp_packet [ascii ''xmp_subject'' \<mapsto> PyStr (ascii ''a</rdf:li><rdf:li>b'')]
           = Inr (before @ xmp_lit_subject
                    @ ascii ''                        <rdf:li>a</rdf:li><rdf:li>b</rdf:li>''
                    @ xmp_lit_headline @ rest))"
proof -
  have bag: "keywords_xml_of (keywords_of (ascii ''a</rdf:li><rdf:li>b''))
       = ascii ''                        <rdf:li>a</rdf:li><rdf:li>b</rdf:li>''"
    by (simp add: keywords_xml_of_def keywords_of_def keyword_li_def strip_def ascii_def
        isspace_def)
  have g: "get [ascii ''xmp_subject'' \<mapsto> PyStr (ascii ''a</rdf:li><rdf:li>b'')]
      ''xmp_subject'' '''' = PyStr (ascii ''a</rdf:li><rdf:li>b'')"
    by (simp add: get_def)
  have "\<exists>before rest.
         create_xmp_packet [ascii ''xmp_subject'' \<mapsto> PyStr (ascii ''a</rdf:li><rdf:li>b'')]
           = Inr (before @ xmp_lit_subject
                    @ ascii ''                        <rdf:li>a</rdf:li><rdf:li>b</rdf:li>''
                    @ xmp_lit_headline @ rest)"
    using create_xmp_packet_with_bag [OF g, of xmp_lit_title_index] bag
    by (simp add: create_xmp_packet_def keywords_xml_of_def)
  moreover have "nonempty_token_count (ascii ''a</rdf:li><rdf:li>b'') = 1"
    by (simp add: nonempty_token_count_def ascii_def isspace_def)
  moreover have "occurrences (ascii ''<rdf:li>'')
      (ascii ''                        <rdf:li>a</rdf:li><rdf:li>b</rdf:li>'') = 2"
    by (simp add: ascii_def)
  ultimately show ?thesis
    using bag by simp
qed

section \<open>Values are inserted verbatim\<close>

lemma xml_escape_char_plain: "\<not> xml_metachar c \<Longrightarrow> xml_escape_char c = [c]"
  by (simp add: xml_escape_char_def xml_metachar_def)

lemma length_xml_escape_char: "1 \<le> length (xml_escape_char c)"
  by (simp add: xml_escape_char_def ascii_def)

lemma length_xml_escape_char_metachar: "xml_metachar c \<Longrightarrow> 1 < length (xml_escape_char c)"
  by (auto simp: xml_escape_char_def xml_metachar_def ascii_def)

lemma xml_escape_plain: "\<forall>c \<in> set s. \<not> xml_metachar c \<Longrightarrow> xml_escape s = s"
  by (induction s) (simp_all add: xml_escape_def xml_escape_char_plain)

lemma length_xml_escape: "length s \<le> length (xml_escape s)"
proof (induction s)
  case Nil
  show ?case by (simp add: xml_escape_def)
next
  case (Cons c s)
  then show ?case
    using length_xml_escape_char [of c] by (simp add: xml_escape_def)
qed

lemma length_xml_escape_eq:
  "length (xml_escape s) = length s \<Longrightarrow> \<forall>c \<in> set s. \<not> xml_metachar c"
proof (induction s)
  case Nil
  show ?case by simp
next
  case (Cons c s)
  have split: "length (xml_escape (c # s)) = length (xml_escape_char c) + length (xml_escape s)"
    by (simp add: xml_escape_def)
  have "length (xml_escape_char c) = 1" "length (xml_escape s) = length s"
    using Cons.prems split length_xml_escape_char [of c] length_xml_escape [of s] by simp_all
  then show ?case
    using Cons.IH length_xml_escape_char_metachar [of c] by auto
qed

lemma length_join:
  "length (join sep xs) = sum_list (map length xs) + length sep * (length xs - 1)"
  by (induction sep xs rule: join.induct) simp_all

lemma length_keyword_li: "length (keyword_li kw) = 41 + length kw"
  by (simp add: keyword_li_def ascii_def)

lemma length_keywords_xml_of:
  "length (keywords_xml_of kws) = sum_list (map length kws) + 41 * length kws + (length kws - 1)"
proof -
  have "sum_list (map length (map keyword_li kws)) = sum_list (map length kws) + 41 * length kws"
    by (induction kws) (simp_all add: length_keyword_li)
  then show ?thesis
    by (simp add: keywords_xml_of_def length_join)
qed

lemma sum_list_length_xml_escape:
  "sum_list (map length kws) \<le> sum_list (map length (map xml_escape kws))"
proof (induction kws)
  case Nil
  show ?case by simp
next
  case (Cons kw kws)
  then show ?case
    using length_xml_escape [of kw] by simp
qed

lemma sum_list_length_xml_escape_eq:
  "sum_list (map length (map xml_escape kws)) = sum_list (map length kws)
   \<Longrightarrow> \<forall>kw \<in> set kws. \<forall>c \<in> set kw. \<not> xml_metachar c"
proof (induction kws)
  case Nil
  show ?case by simp
next
  case (Cons kw kws)
  have "length (xml_escape kw) = length kw"
    "sum_list (map length (map xml_escape kws)) = sum_list (map length kws)"
    using Cons.prems length_xml_escape [of kw] sum_list_length_xml_escape [of kws] by simp_all
  then show ?case
    using Cons.IH length_xml_escape_eq [of kw] by simp
qed

lemma xmp_fstring_escaped_eq_iff:
  "xmp_fstring lit (xml_escape t) (xml_escape d) (xml_escape c) (xml_escape r)
       (keywords_xml_of (map xml_escape kws)) (xml_escape h) (xml_escape cr) (xml_escape s)
       (xml_escape dc) (xml_escape cat) (xml_escape w) (xml_escape ph)
     = xmp_fstring lit t d c r (keywords_xml_of kws) h cr s dc cat w ph
   \<longleftrightarrow> (\<forall>v \<in> set ([t, d, c, r] @ kws @ [h, cr, s, dc, cat, w, ph]).
          \<forall>x \<in> set v. \<not> xml_metachar x)"
  (is "?escaped = ?verbatim \<longleftrightarrow> ?plain")
proof
  assume ?plain
  then have "xml_escape t = t" "xml_escape d = d" "xml_escape c = c" "xml_escape r = r"
    "xml_escape h = h" "xml_escape cr = cr" "xml_escape s = s" "xml_escape dc = dc"
    "xml_escape cat = cat" "xml_escape w = w" "xml_escape ph = ph"
    "map xml_escape kws = kws"
    by (simp_all add: xml_escape_plain map_idI)
  then show "?escaped = ?verbatim"
    by simp
next
  assume "?escaped = ?verbatim"
  then have "length ?escaped = length ?verbatim"
    by simp
  then have total: "length (xml_escape t) + length (xml_escape d) + length (xml_escape c)
      + length (xml_escape r) + sum_list (map length (map xml_escape kws))
      + length (xml_escape h) + length (xml_escape cr) + length (xml_escape s)
      + length (xml_escape dc) + length (xml_escape cat) + length (xml_escape w)
      + length (xml_escape ph)
    = length t + length d + length c + length r + sum_list (map length kws)
      + length h + length cr + length s + length dc + length cat + length w + length ph"
    by (simp add: length_xmp_fstring length_keywords_xml_of)
  note le = length_xml_escape [of t] length_xml_escape [of d] length_xml_escape [of c]
    length_xml_escape [of r] length_xml_escape [of h] length_xml_escape [of cr]
    length_xml_escape [of s] length_xml_escape [of dc] length_xml_escape [of cat]
    length_xml_escape [of w] length_xml_escape [of ph] sum_list_length_xml_escape [of kws]
  have "length (xml_escape t) = length t" "length (xml_escape d) = length d"
    "length (xml_escape c) = length c" "length (xml_escape r) = length r"
    "length (xml_escape h) = length h" "length (xml_escape cr) = length cr"
    "length (xml_escape s) = length s" "length (xml_escape dc) = length dc"
    "length (xml_escape cat) = length cat" "length (xml_escape w) = length w"
    "length (xml_escape ph) = length ph"
    "sum_list (map length (map xml_escape kws)) = sum_list (map length kws)"
    using total le by linarith+
  then show ?plain
    using length_xml_escape_eq sum_list_length_xml_escape_eq [of kws] by simp
qed

lemma create_xmp_packet_escaping_PyStr:
  "get m ''xmp_subject'' '''' = PyStr subj \<Longrightarrow>
   create_xmp_packet_escaping lit m =
     Inr (xmp_fstring lit (xml_escape (format (get m ''xmp_title'' '''')))
       (xml_escape (format (get m ''xmp_description'' '''')))
       (xml_escape (format (get m ''xmp_creator'' ''GroundSwell'')))
       (xml_escape (format (get m ''xmp_rights'' '''')))
       (keywords_xml_of (map xml_escape (keywords_of subj)))
       (xml_escape (format (get m ''xmp_headline'' '''')))
       (xml_escape (format (get m ''xmp_credit'' ''GroundSwell'')))
       (xml_escape (format (get m ''xmp_source'' ''GroundSwell'')))
       (xml_escape (format (get m ''xmp_date_created'' '''')))
       (xml_escape (format (get m ''xmp_category'' ''Business Ownership Platform'')))
       (xml_escape (format (get m ''xmp_website'' ''www.groundswell.co'')))
       (xml_escape (format (get m ''xmp_phone'' ''435-214-2997''))))"
  by (simp add: create_xmp_packet_escaping_def)

text \<open>
  Claim C2, as the code has it. The builder escapes nothing: in either copy of
  \<open>create_xmp_packet\<close>, \<open>lit\<close> being its first literal, the packet is the literal
  text with every value inserted as it is. It is the packet of the builder that the
  specification describes, which escapes the five characters in every interpolated
  value, exactly when no interpolated value contains one of the five characters.
\<close>

theorem values_inserted_verbatim:
  assumes "lit = xmp_lit_title_index \<and> create_xmp_packet m = Inr packet
         \<or> lit = xmp_lit_title_app \<and> create_xmp_packet_app m = Inr packet"
  shows
    "packet = xmp_fstring lit (format (get m ''xmp_title'' ''''))
        (format (get m ''xmp_description'' ''''))
        (format (get m ''xmp_creator'' ''GroundSwell'')) (format (get m ''xmp_rights'' ''''))
        (keywords_xml_of (keywords_of (format (get m ''xmp_subject'' ''''))))
        (format (get m ''xmp_headline'' ''''))
        (format (get m ''xmp_credit'' ''GroundSwell'')) (format (get m ''xmp_source'' ''GroundSwell''))
        (format (get m ''xmp_date_created'' ''''))
        (format (get m ''xmp_category'' ''Business Ownership Platform''))
        (format (get m ''xmp_website'' ''www.groundswell.co''))
        (format (get m ''xmp_phone'' ''435-214-2997''))
     \<and> (create_xmp_packet_escaping lit m = Inr packet
          \<longleftrightarrow> (\<forall>v \<in> set (interpolated_values m). \<forall>c \<in> set v. \<not> xml_metachar c))"
proof -
  from assms have built: "create_xmp_packet_with lit m = Inr packet"
    by (auto simp: create_xmp_packet_def create_xmp_packet_app_def)
  from built obtain subj where subj: "get m ''xmp_subject'' '''' = PyStr subj"
    by (cases "get m ''xmp_subject'' ''''") (simp_all add: create_xmp_packet_with_PyOther)
  have packet: "packet = xmp_fstring lit (format (get m ''xmp_title'' ''''))
       (format (get m ''xmp_description'' ''''))
       (format (get m ''xmp_creator'' ''GroundSwell'')) (format (get m ''xmp_rights'' ''''))
       (keywords_xml_of (keywords_of subj)) (format (get m ''xmp_headline'' ''''))
       (format (get m ''xmp_credit'' ''GroundSwell'')) (format (get m ''xmp_source'' ''GroundSwell''))
       (format (get m ''xmp_date_created'' ''''))
       (format (get m ''xmp_category'' ''Business Ownership Platform''))
       (format (get m ''xmp_website'' ''www.groundswell.co''))
       (format (get m ''xmp_phone'' ''435-214-2997''))"
    using built create_xmp_packet_with_PyStr [OF subj, of lit] by simp
  have "create_xmp_packet_escaping lit m = Inr packet
      \<longleftrightarrow> (\<forall>v \<in> set (interpolated_values m). \<forall>c \<in> set v. \<not> xml_metachar c)"
    unfolding create_xmp_packet_escaping_PyStr [OF subj] packet interpolated_values_def subj
      format.simps sum.inject
    by (rule xmp_fstring_escaped_eq_iff)
  then show ?thesis
    using packet subj by simp
qed

lemma create_xmp_packet_with_title_only:
  "create_xmp_packet_with lit [ascii ''xmp_title'' \<mapsto> PyStr t]
     = Inr (xmp_fstring lit t [] (ascii ''GroundSwell'') [] [] []
         (ascii ''GroundSwell'') (ascii ''GroundSwell'') [] (ascii ''Business Ownership Platform'')
         (ascii ''www.groundswell.co'') (ascii ''435-214-2997''))"
  by (simp add: create_xmp_packet_with_def get_def ascii_eq_iff
      keywords_of_def keywords_xml_of_def strip_def)

lemma xml_escape_ascii_plain:
  "xml_escape (ascii ''GroundSwell'') = ascii ''GroundSwell''"
  "xml_escape (ascii ''Business Ownership Platform'') = ascii ''Business Ownership Platform''"
  "xml_escape (ascii ''www.groundswell.co'') = ascii ''www.groundswell.co''"
  "xml_escape (ascii ''435-214-2997'') = ascii ''435-214-2997''"
  "xml_escape [] = []"
  by (simp_all add: xml_escape_def xml_escape_char_def ascii_def)

lemma create_xmp_packet_escaping_title_only:
  "create_xmp_packet_escaping lit [ascii ''xmp_title'' \<mapsto> PyStr t]
     = Inr (xmp_fstring lit (xml_escape t) [] (ascii ''GroundSwell'') [] [] []
         (ascii ''GroundSwell'') (ascii ''GroundSwell'') [] (ascii ''Business Ownership Platform'')
         (ascii ''www.groundswell.co'') (ascii ''435-214-2997''))"
  by (simp add: create_xmp_packet_escaping_def get_def ascii_eq_iff
      keywords_of_def keywords_xml_of_def strip_def xml_escape_ascii_plain)

theorem values_inserted_verbatim_witness:
  "create_xmp_packet [ascii ''xmp_title'' \<mapsto> PyStr (ascii ''Fractal Flywheel'')]
     = Inr (xmp_fstring xmp_lit_title_index (ascii ''Fractal Flywheel'') []
         (ascii ''GroundSwell'') [] [] []
         (ascii ''GroundSwell'') (ascii ''GroundSwell'') [] (ascii ''Business Ownership Platform'')
         (ascii ''www.groundswell.co'') (ascii ''435-214-2997''))
   \<and> create_xmp_packet_escaping xmp_lit_title_index
       [ascii ''xmp_title'' \<mapsto> PyStr (ascii ''Fractal Flywheel'')]
     = create_xmp_packet [ascii ''xmp_title'' \<mapsto> PyStr (ascii ''Fractal Flywheel'')]"
proof -
  define m :: metadata where "m = [ascii ''xmp_title'' \<mapsto> PyStr (ascii ''Fractal Flywheel'')]"
  define packet where "packet = xmp_fstring xmp_lit_title_index (ascii ''Fractal Flywheel'') []
         (ascii ''GroundSwell'') [] [] []
         (ascii ''GroundSwell'') (ascii ''GroundSwell'') [] (ascii ''Business Ownership Platform'')
         (ascii ''www.groundswell.co'') (ascii ''435-214-2997'')"
  have p: "create_xmp_packet m = Inr packet"
    unfolding m_def packet_def create_xmp_packet_def by (rule create_xmp_packet_with_title_only)
  have g: "get m key dflt =
      (if key = ''xmp_title'' then PyStr (ascii ''Fractal Flywheel'') else PyStr (ascii dflt))"
    for key dflt
    by (simp add: m_def get_def ascii_eq_iff)
  have plain: "\<forall>v \<in> set (interpolated_values m). \<forall>c \<in> set v. \<not> xml_metachar c"
    by (simp add: interpolated_values_def g keywords_of_def strip_def)
       (simp add: ascii_def xml_metachar_def)
  have "create_xmp_packet_escaping xmp_lit_title_index m = Inr packet"
    using values_inserted_verbatim [of xmp_lit_title_index m packet] p plain by simp
  then show ?thesis
    using p unfolding m_def packet_def by simp
qed

text \<open>
  The claim as stated fails: a title with metacharacters is inserted unescaped. For
  the title \<open>R&D <new>\<close> the packet of either copy holds these nine characters
  between the tags of the title, where the builder of the specification puts
  \<open>R&amp;D &lt;new&gt;\<close>.
\<close>

theorem metacharacters_not_escaped:
  "(\<exists>rest.
      create_xmp_packet [ascii ''xmp_title'' \<mapsto> PyStr (ascii ''R&D <new>'')]
        = Inr (xmp_lit_title_index @ ascii ''R&D <new>'' @ xmp_lit_description @ rest)
      \<and> create_xmp_packet_escaping xmp_lit_title_index
          [ascii ''xmp_title'' \<mapsto> PyStr (ascii ''R&D <new>'')]
        = Inr (xmp_lit_title_index @ ascii ''R&amp;D &lt;new&gt;'' @ xmp_lit_description @ rest))
   \<and> (\<exists>rest.
      create_xmp_packet_app [ascii ''xmp_title'' \<mapsto> PyStr (ascii ''R&D <new>'')]
        = Inr (xmp_lit_title_app @ ascii ''R&D <new>'' @ xmp_lit_description @ rest)
      \<and> create_xmp_packet_escaping xmp_lit_title_app
          [ascii ''xmp_title'' \<mapsto> PyStr (ascii ''R&D <new>'')]
        = Inr (xmp_lit_title_app @ ascii ''R&amp;D &lt;new&gt;'' @ xmp_lit_description @ rest))
   \<and> xml_escape (ascii ''R&D <new>'') = ascii ''R&amp;D &lt;new&gt;''
   \<and> ascii ''R&amp;D &lt;new&gt;'' \<noteq> ascii ''R&D <new>''"
proof -
  have esc: "xml_escape (ascii ''R&D <new>'') = ascii ''R&amp;D &lt;new&gt;''"
    by (simp add: xml_escape_def xml_escape_char_def ascii_def)
  have ne: "ascii ''R&amp;D &lt;new&gt;'' \<noteq> ascii ''R&D <new>''"
    by (simp add: ascii_def)
  let ?rest = "[] @ xmp_lit_creator @ ascii ''GroundSwell'' @ xmp_lit_rights @ [] @ xmp_lit_subject
      @ [] @ xmp_lit_headline @ [] @ xmp_lit_credit @ ascii ''GroundSwell'' @ xmp_lit_source
      @ ascii ''GroundSwell'' @ xmp_lit_date_created @ [] @ xmp_lit_category
      @ ascii ''Business Ownership Platform'' @ xmp_lit_website @ ascii ''www.groundswell.co''
      @ xmp_lit_phone @ ascii ''435-214-2997'' @ xmp_lit_end"
  have shape: "xmp_fstring lit t [] (ascii ''GroundSwell'') [] [] []
         (ascii ''GroundSwell'') (ascii ''GroundSwell'') [] (ascii ''Business Ownership Platform'')
         (ascii ''www.groundswell.co'') (ascii ''435-214-2997'')
      = lit @ t @ xmp_lit_description @ ?rest" for lit t
    by (simp add: xmp_fstring_def)
  have both: "create_xmp_packet_with lit [ascii ''xmp_title'' \<mapsto> PyStr (ascii ''R&D <new>'')]
        = Inr (lit @ ascii ''R&D <new>'' @ xmp_lit_description @ ?rest)
      \<and> create_xmp_packet_escaping lit [ascii ''xmp_title'' \<mapsto> PyStr (ascii ''R&D <new>'')]
        = Inr (lit @ ascii ''R&amp;D &lt;new&gt;'' @ xmp_lit_description @ ?rest)" for lit
    unfolding create_xmp_packet_with_title_only create_xmp_packet_escaping_title_only esc shape
    by simp
  show ?thesis
    using both [of xmp_lit_title_index] both [of xmp_lit_title_app] esc ne
    unfolding create_xmp_packet_def create_xmp_packet_app_def
    by blast
qed

section \<open>The text chunks of the PNG writer\<close>

lemma encode_latin1_small:
  "list_all (\<lambda>c. c < 0x100) s \<Longrightarrow> encode_latin1 s = Inr (map of_nat s)"
  by (induction s) simp_all

lemma encode_latin1_not_small:
  "\<not> list_all (\<lambda>c. c < 0x100) s \<Longrightarrow> encode_latin1 s = Inl UnicodeEncodeError"
  by (induction s) (auto simp: and_then_def)

lemma encode_latin1_ascii: "encode_latin1 (ascii s) = Inr (ascii_bytes s)"
proof -
  have "list_all (\<lambda>c. c < 0x100) (ascii s)"
    by (simp add: ascii_def list_all_iff)
  moreover have "map of_nat (ascii s) = ascii_bytes s"
    by (simp add: ascii_def ascii_bytes_def of_nat_of_char)
  ultimately show ?thesis
    by (simp add: encode_latin1_small)
qed

lemma ascii_bytes_Nil [simp]: "ascii_bytes [] = []"
  by (simp add: ascii_bytes_def)

lemma map_of_nat_ascii: "map of_nat (ascii s) = ascii_bytes s"
  by (simp add: ascii_def ascii_bytes_def of_nat_of_char)

lemma encode_utf8_utf8: "\<forall>c \<in> set s. \<not> surrogate c \<Longrightarrow> encode_utf8 s = Inr (utf8 s)"
proof -
  have "\<forall>c \<in> set s. \<not> surrogate c \<Longrightarrow> \<exists>value_bytes. encode_utf8 s = Inr value_bytes"
  proof (induction s)
    case Nil
    show ?case by simp
  next
    case (Cons c s)
    then obtain bs where "encode_utf8 s = Inr bs"
      by auto
    moreover have "\<exists>b. utf8_char c = Inr b"
      using Cons.prems by (simp add: utf8_char_def surrogate_def)
    ultimately show ?case
      by auto
  qed
  then show "\<forall>c \<in> set s. \<not> surrogate c \<Longrightarrow> encode_utf8 s = Inr (utf8 s)"
    by (auto simp: utf8_def)
qed

lemma add_text_latin1:
  "list_all (\<lambda>c. c < 0x100) s \<Longrightarrow>
   add_text chunks (ascii keyword) (PyStr s) = Inr (chunks @ [text_chunk keyword (map of_nat s)])"
  by (simp add: add_text_def encode_latin1_small encode_latin1_ascii text_chunk_def)

lemma add_text_not_latin1:
  "encode_latin1 s = Inl e \<Longrightarrow> encode_utf8 s = Inr value_bytes \<Longrightarrow>
   add_text chunks (ascii keyword) (PyStr s) = Inr (chunks @ [itxt_chunk keyword value_bytes])"
  by (simp add: add_text_def add_itxt_def encode_latin1_ascii itxt_chunk_def)

lemma add_text_chunk_for:
  assumes "\<forall>c \<in> set s. \<not> surrogate c"
  shows "add_text chunks (ascii keyword) (PyStr s) = Inr (chunks @ [text_chunk_for keyword s])"
proof (cases "list_all (\<lambda>c. c < 0x100) s")
  case True
  then show ?thesis
    by (simp add: add_text_latin1 text_chunk_for_def)
next
  case False
  then show ?thesis
    using add_text_not_latin1 [OF encode_latin1_not_small encode_utf8_utf8, OF False assms]
    by (simp add: text_chunk_for_def)
qed

lemma add_texts_chunk_for:
  assumes "\<forall>k v. m k = Some v \<longrightarrow> (\<exists>s. v = PyStr s)"
  shows "\<forall>(keyword, field, dflt) \<in> set entries.
           \<forall>c \<in> set (format (get m field dflt)). \<not> surrogate c \<Longrightarrow>
         add_texts m chunks entries =
           Inr (chunks @ map (\<lambda>(keyword, field, dflt).
                   text_chunk_for keyword (format (get m field dflt))) entries)"
proof (induction entries arbitrary: chunks)
  case Nil
  show ?case by simp
next
  case (Cons f entries)
  obtain keyword field dflt where f: "f = (keyword, field, dflt)"
    by (cases f)
  obtain s where s: "get m field dflt = PyStr s"
    using get_string_valued [OF assms] by blast
  have "\<forall>c \<in> set s. \<not> surrogate c"
    using Cons.prems f s by simp
  then show ?case
    using Cons f s by (simp add: add_text_chunk_for)
qed

lemma pnginfo_of_chunks_for:
  assumes "\<forall>k v. m k = Some v \<longrightarrow> (\<exists>s. v = PyStr s)"
    and "packet m = Inr xmp_data"
    and "\<forall>v \<in> set (png_values m xmp_data). \<forall>c \<in> set v. \<not> surrogate c"
  shows "pnginfo_of packet m = Inr (png_chunks_for m xmp_data)"
proof -
  have "\<forall>(keyword, field, dflt) \<in> set png_text_fields.
      \<forall>c \<in> set (format (get m field dflt)). \<not> surrogate c"
    using assms(3) by (auto simp: png_values_def)
  moreover have "\<forall>c \<in> set xmp_data. \<not> surrogate c"
    using assms(3) by (simp add: png_values_def)
  ultimately show ?thesis
    using assms(2)
    by (simp add: pnginfo_of_def add_texts_chunk_for [OF assms(1)] add_text_chunk_for
        png_chunks_for_def)
qed

lemma i32_4: "i32 [a, b, c, d] = ((unat a * 0x100 + unat b) * 0x100 + unat c) * 0x100 + unat d"
  by (simp add: i32_def)

lemma base_256:
  "((n div 0x1000000 * 0x100 + n div 0x10000 mod 0x100) * 0x100
      + n div 0x100 mod 0x100) * 0x100 + n mod 0x100 = n" for n :: nat
proof -
  define q1 where "q1 = n div 0x100"
  define q2 where "q2 = q1 div 0x100"
  define q3 where "q3 = q2 div 0x100"
  have e2: "n div 0x10000 = q2"
    unfolding q2_def q1_def by (simp add: div_mult2_eq)
  have e3: "n div 0x1000000 = q3"
    unfolding q3_def q2_def q1_def by (simp add: div_mult2_eq)
  have "q3 * 0x100 + q2 mod 0x100 = q2"
    unfolding q3_def by simp
  moreover have "q2 * 0x100 + q1 mod 0x100 = q1"
    unfolding q2_def by simp
  moreover have "q1 * 0x100 + n mod 0x100 = n"
    unfolding q1_def by simp
  ultimately show ?thesis
    unfolding e2 e3 q1_def [symmetric] by simp
qed

lemma o32_i32:
  assumes "n < 0x100000000"
  shows "\<exists>bs. o32 n = Inr bs \<and> length bs = 4 \<and> i32 bs = n"
proof -
  have a: "n div 0x1000000 < 0x100"
    using assms by simp
  have "unat (of_nat (n div 0x1000000) :: byte) = n div 0x1000000"
    using a by (simp add: unat_of_nat)
  moreover have "unat (of_nat (n div 0x10000 mod 0x100) :: byte) = n div 0x10000 mod 0x100"
    "unat (of_nat (n div 0x100 mod 0x100) :: byte) = n div 0x100 mod 0x100"
    "unat (of_nat (n mod 0x100) :: byte) = n mod 0x100"
    by (simp_all add: unat_of_nat)
  ultimately show ?thesis
    using assms base_256 [of n] by (simp add: o32_def i32_4)
qed

lemma putchunk_read_chunk:
  assumes "length cid = 4" "length data < 0x100000000"
  shows "\<exists>written. putchunk (cid, data) = Inr written
     \<and> (\<forall>rest. read_chunk (written @ rest) = Some ((cid, data), rest))"
proof -
  obtain lb where lb: "o32 (length data) = Inr lb" "length lb = 4" "i32 lb = length data"
    using o32_i32 [OF assms(2)] by blast
  have "unat (crc32 (cid @ data)) < 0x100000000"
    using unsigned_less [of "crc32 (cid @ data)", where 'a = nat] by simp
  then obtain cb where cb: "o32 (unat (crc32 (cid @ data))) = Inr cb" "length cb = 4"
    "i32 cb = unat (crc32 (cid @ data))"
    using o32_i32 by blast
  have "putchunk (cid, data) = Inr (lb @ cid @ data @ cb)"
    by (simp add: putchunk_def lb cb)
  moreover have "read_chunk ((lb @ cid @ data @ cb) @ rest) = Some ((cid, data), rest)" for rest
    using lb(2,3) cb(2,3) assms(1) by (simp add: read_chunk_def)
  ultimately show ?thesis
    by blast
qed

text \<open>
  The chunk that ends every PNG stream, as a check of \<open>putchunk\<close> against the format:
  its twelve bytes are \<open>00 00 00 00 49 45 4E 44 AE 42 60 82\<close>.
\<close>

lemma funpow_8: "(f ^^ 8) x = f (f (f (f (f (f (f (f x)))))))"
  by (simp add: eval_nat_numeral)

lemma crc32_IEND: "crc32 (ascii_bytes ''IEND'') = 0xAE426082"
  by (simp add: crc32_def crc32_byte_def crc32_bit_def funpow_8 ascii_bytes_def)

lemma putchunk_IEND:
  "putchunk (ascii_bytes ''IEND'', [])
     = Inr ([0x00, 0x00, 0x00, 0x00] @ ascii_bytes ''IEND'' @ [0xAE, 0x42, 0x60, 0x82])"
  using crc32_IEND by (simp add: putchunk_def o32_def)

lemma putchunks_read_chunks:
  "\<forall>chunk \<in> set chunks. length (fst chunk) = 4 \<and> length (snd chunk) < 0x100000000 \<Longrightarrow>
   \<exists>written. putchunks chunks = Inr written
     \<and> (\<forall>rest. read_chunks (length chunks) (written @ rest) = Some (chunks, rest))"
proof (induction chunks)
  case Nil
  show ?case by simp
next
  case (Cons chunk chunks)
  obtain cid data where chunk: "chunk = (cid, data)"
    by (cases chunk)
  obtain w where w: "putchunk (cid, data) = Inr w"
    "\<And>rest. read_chunk (w @ rest) = Some ((cid, data), rest)"
    using putchunk_read_chunk [of cid data] Cons.prems chunk by auto
  obtain ws where ws: "putchunks chunks = Inr ws"
    "\<And>rest. read_chunks (length chunks) (ws @ rest) = Some (chunks, rest)"
    using Cons by auto
  have "putchunks (chunk # chunks) = Inr (w @ ws)"
    by (simp add: chunk w(1) ws(1))
  moreover have "read_chunks (length (chunk # chunks)) ((w @ ws) @ rest)
      = Some (chunk # chunks, rest)" for rest
    by (simp add: chunk w(2) ws(2))
  ultimately show ?case
    by blast
qed

lemma length_fst_text_chunk_for: "length (fst (text_chunk_for keyword v)) = 4"
  by (simp add: text_chunk_for_def text_chunk_def itxt_chunk_def ascii_bytes_def)

lemma length_png_chunks_for: "length (png_chunks_for m xmp_data) = 11"
  by (simp add: png_chunks_for_def png_text_fields_def)

lemma putchunks_Inr:
  "putchunks chunks = Inr written \<Longrightarrow> \<forall>chunk \<in> set chunks. length (snd chunk) < 0x100000000"
proof (induction chunks arbitrary: written)
  case Nil
  show ?case by simp
next
  case (Cons chunk chunks)
  obtain cid data where chunk: "chunk = (cid, data)"
    by (cases chunk)
  from Cons.prems obtain w ws where "putchunk (cid, data) = Inr w" "putchunks chunks = Inr ws"
    by (auto simp: chunk and_then_eq_Inr)
  moreover from this(1) have "length data < 0x100000000"
    by (auto simp: putchunk_def and_then_eq_Inr o32_def split: if_splits)
  ultimately show ?case
    using Cons.IH chunk by simp
qed

lemma save_png_written:
  "encode_png lib img = Inr (before, between, idat) \<Longrightarrow> putchunks chunks = Inr written
   \<Longrightarrow> putchunks (image_chunks idat) = Inr image_written
   \<Longrightarrow> save_png lib img chunks = Inr (before @ written @ between @ image_written)"
  by (simp add: save_png_def)

lemma putchunks_image_chunks:
  assumes "putchunks (image_chunks idat) = Inr image_written"
  shows "read_chunks (length idat + 1) image_written = Some (image_chunks idat, [])"
proof -
  have "\<forall>chunk \<in> set (image_chunks idat).
      length (fst chunk) = 4 \<and> length (snd chunk) < 0x100000000"
    using putchunks_Inr [OF assms] by (auto simp: image_chunks_def ascii_bytes_def)
  then obtain w where w: "putchunks (image_chunks idat) = Inr w"
    "\<And>rest. read_chunks (length (image_chunks idat)) (w @ rest) = Some (image_chunks idat, rest)"
    using putchunks_read_chunks by blast
  have "length (image_chunks idat) = length idat + 1"
    by (simp add: image_chunks_def)
  then show ?thesis
    using w(2) [of "[]"] w(1) assms by (simp del: read_chunks.simps)
qed

lemma png_chunks_emitted:
  assumes "\<forall>k v. m k = Some v \<longrightarrow> (\<exists>s. v = PyStr s)"
    and "packet = create_xmp_packet \<or> packet = create_xmp_packet_app"
    and "packet m = Inr xmp_data"
    and "\<forall>v \<in> set (png_values m xmp_data). \<forall>c \<in> set v. \<not> surrogate c"
    and "\<forall>chunk \<in> set (png_chunks_for m xmp_data). length (snd chunk) < 0x100000000"
  shows "pnginfo_of packet m = Inr (png_chunks_for m xmp_data)
     \<and> (\<exists>written. putchunks (png_chunks_for m xmp_data) = Inr written
          \<and> (\<forall>rest. read_chunks 11 (written @ rest) = Some (png_chunks_for m xmp_data, rest))
          \<and> (packet = create_xmp_packet \<and> image_open lib image_data = Inr img
                \<and> encode_png lib img = Inr (before, between, idat)
                \<and> putchunks (image_chunks idat) = Inr image_written
              \<longrightarrow> process_png_metadata lib image_data m
                    = Inr (before @ written @ between @ image_written))
          \<and> (packet = create_xmp_packet_app \<and> fs file_path = Some image_data
                \<and> image_open lib image_data = Inr img
                \<and> encode_png lib img = Inr (before, between, idat)
                \<and> putchunks (image_chunks idat) = Inr image_written
              \<longrightarrow> write_metadata_to_png lib fs file_path output_path m
                    = Inr (fs(output_path \<mapsto> before @ written @ between @ image_written), True)))"
proof -
  have info: "pnginfo_of packet m = Inr (png_chunks_for m xmp_data)"
    using assms(1,3,4) by (rule pnginfo_of_chunks_for)
  have "\<forall>chunk \<in> set (png_chunks_for m xmp_data).
      length (fst chunk) = 4 \<and> length (snd chunk) < 0x100000000"
    using assms(5) by (auto simp: png_chunks_for_def length_fst_text_chunk_for)
  then obtain written where written: "putchunks (png_chunks_for m xmp_data) = Inr written"
    "\<And>rest. read_chunks (length (png_chunks_for m xmp_data)) (written @ rest)
        = Some (png_chunks_for m xmp_data, rest)"
    using putchunks_read_chunks by blast
  have index: "process_png_metadata lib image_data m
      = Inr (before @ written @ between @ image_written)"
    if "packet = create_xmp_packet" "image_open lib image_data = Inr img"
      "encode_png lib img = Inr (before, between, idat)"
      "putchunks (image_chunks idat) = Inr image_written"
    using that info written(1) by (simp add: process_png_metadata_def save_png_written)
  have app: "write_metadata_to_png lib fs file_path output_path m
      = Inr (fs(output_path \<mapsto> before @ written @ between @ image_written), True)"
    if "packet = create_xmp_packet_app" "fs file_path = Some image_data"
      "image_open lib image_data = Inr img" "encode_png lib img = Inr (before, between, idat)"
      "putchunks (image_chunks idat) = Inr image_written"
    using that info written(1)
    by (simp add: write_metadata_to_png_def write_metadata_to_png_try_def read_file_def
        raised_in_def save_png_written)
  show ?thesis
    using info written index app by (simp add: length_png_chunks_for)
qed

lemma raised_in_eq_Inr: "raised_in fs r = Inr x \<longleftrightarrow> r = Inr x"
  by (cases r) (simp_all add: raised_in_def)

lemma add_text_Inr:
  assumes "add_text chunks (ascii keyword) v = Inr chunks'"
  shows "\<exists>s. v = PyStr s \<and> chunks' = chunks @ [text_chunk_for keyword s]"
proof (cases v)
  case (PyOther r)
  then show ?thesis
    using assms by (simp add: add_text_def)
next
  case (PyStr s)
  show ?thesis
  proof (cases "list_all (\<lambda>c. c < 0x100) s")
    case True
    then show ?thesis
      using assms PyStr by (simp add: add_text_latin1 text_chunk_for_def)
  next
    case False
    then have "encode_latin1 s = Inl UnicodeEncodeError"
      by (rule encode_latin1_not_small)
    with assms PyStr have "add_itxt chunks (ascii keyword) s = Inr chunks'"
      by (simp add: add_text_def)
    then obtain value_bytes where "encode_utf8 s = Inr value_bytes"
      "chunks' = chunks @ [itxt_chunk keyword value_bytes]"
      by (auto simp: add_itxt_def encode_latin1_ascii and_then_eq_Inr itxt_chunk_def)
    then show ?thesis
      using PyStr False by (simp add: text_chunk_for_def utf8_def)
  qed
qed

lemma add_texts_Inr:
  "add_texts m chunks entries = Inr chunks' \<Longrightarrow>
   chunks' = chunks @ map (\<lambda>(keyword, field, dflt).
                text_chunk_for keyword (format (get m field dflt))) entries"
proof (induction entries arbitrary: chunks)
  case Nil
  then show ?case by simp
next
  case (Cons f entries)
  obtain keyword field dflt where f: "f = (keyword, field, dflt)"
    by (cases f)
  from Cons.prems obtain chunks1 where
    first: "add_text chunks (ascii keyword) (get m field dflt) = Inr chunks1"
    and rest: "add_texts m chunks1 entries = Inr chunks'"
    by (auto simp: f and_then_eq_Inr)
  from add_text_Inr [OF first] obtain s where "get m field dflt = PyStr s"
    "chunks1 = chunks @ [text_chunk_for keyword s]"
    by blast
  then show ?case
    using Cons.IH [OF rest] f by simp
qed

lemma pnginfo_of_Inr:
  assumes "pnginfo_of packet m = Inr chunks"
  shows "\<exists>xmp_data. packet m = Inr xmp_data \<and> chunks = png_chunks_for m xmp_data"
proof -
  from assms obtain chunks1 xmp_data where
    texts: "add_texts m [] png_text_fields = Inr chunks1"
    and built: "packet m = Inr xmp_data"
    and last: "add_text chunks1 (ascii ''XML:com.adobe.xmp'') (PyStr xmp_data) = Inr chunks"
    by (auto simp: pnginfo_of_def and_then_eq_Inr)
  from add_text_Inr [OF last] have "chunks = chunks1 @ [text_chunk_for ''XML:com.adobe.xmp'' xmp_data]"
    by simp
  then show ?thesis
    using add_texts_Inr [OF texts] built by (simp add: png_chunks_for_def)
qed

lemma putchunks_png_chunks_for:
  assumes "putchunks (png_chunks_for m xmp_data) = Inr written"
  shows "read_chunks 11 (written @ rest) = Some (png_chunks_for m xmp_data, rest)"
proof -
  have "\<forall>chunk \<in> set (png_chunks_for m xmp_data).
      length (fst chunk) = 4 \<and> length (snd chunk) < 0x100000000"
    using putchunks_Inr [OF assms] by (auto simp: png_chunks_for_def length_fst_text_chunk_for)
  then show ?thesis
    using putchunks_read_chunks [of "png_chunks_for m xmp_data"] assms
    by (auto simp: length_png_chunks_for)
qed

lemma save_png_Inr:
  "save_png lib img chunks = Inr out \<Longrightarrow>
   \<exists>before between idat written image_written. encode_png lib img = Inr (before, between, idat)
     \<and> putchunks chunks = Inr written \<and> putchunks (image_chunks idat) = Inr image_written
     \<and> out = before @ written @ between @ image_written"
  by (auto simp: save_png_def and_then_eq_Inr)

lemma process_png_metadata_Inr:
  assumes "process_png_metadata lib image_data m = Inr out"
  shows "\<exists>img before between idat xmp_data written image_written.
      image_open lib image_data = Inr img \<and> encode_png lib img = Inr (before, between, idat)
      \<and> create_xmp_packet m = Inr xmp_data
      \<and> putchunks (png_chunks_for m xmp_data) = Inr written
      \<and> putchunks (image_chunks idat) = Inr image_written
      \<and> out = before @ written @ between @ image_written
      \<and> (\<forall>rest. read_chunks 11 (written @ rest) = Some (png_chunks_for m xmp_data, rest))
      \<and> read_chunks (length idat + 1) image_written = Some (image_chunks idat, [])"
proof -
  from assms obtain img chunks where img: "image_open lib image_data = Inr img"
    and info: "pnginfo_of create_xmp_packet m = Inr chunks"
    and save: "save_png lib img chunks = Inr out"
    by (auto simp: process_png_metadata_def and_then_eq_Inr)
  from pnginfo_of_Inr [OF info] obtain xmp_data where built: "create_xmp_packet m = Inr xmp_data"
    and chunks: "chunks = png_chunks_for m xmp_data"
    by blast
  from save_png_Inr [OF save] obtain before between idat written image_written where
    enc: "encode_png lib img = Inr (before, between, idat)"
    and written: "putchunks (png_chunks_for m xmp_data) = Inr written"
    and image_written: "putchunks (image_chunks idat) = Inr image_written"
    and out: "out = before @ written @ between @ image_written"
    unfolding chunks by blast
  show ?thesis
    using img enc built written image_written out putchunks_png_chunks_for [OF written]
      putchunks_image_chunks [OF image_written]
    by blast
qed

lemma write_metadata_to_png_True:
  assumes "write_metadata_to_png lib fs file_path output_path m = Inr (fs', True)"
  shows "\<exists>data img before between idat xmp_data written image_written.
      fs file_path = Some data \<and> image_open lib data = Inr img
      \<and> encode_png lib img = Inr (before, between, idat)
      \<and> create_xmp_packet_app m = Inr xmp_data
      \<and> putchunks (png_chunks_for m xmp_data) = Inr written
      \<and> putchunks (image_chunks idat) = Inr image_written
      \<and> fs' = fs(output_path \<mapsto> before @ written @ between @ image_written)
      \<and> (\<forall>rest. read_chunks 11 (written @ rest) = Some (png_chunks_for m xmp_data, rest))
      \<and> read_chunks (length idat + 1) image_written = Some (image_chunks idat, [])"
proof -
  from assms have "write_metadata_to_png_try lib fs file_path output_path m = Inr (fs', True)"
    by (auto simp: write_metadata_to_png_def split: sum.splits)
  then obtain data img chunks png_data where data: "fs file_path = Some data"
    and img: "image_open lib data = Inr img"
    and info: "pnginfo_of create_xmp_packet_app m = Inr chunks"
    and save: "save_png lib img chunks = Inr png_data"
    and fs': "fs' = fs(output_path \<mapsto> png_data)"
    by (auto simp: write_metadata_to_png_try_def and_then_eq_Inr raised_in_eq_Inr read_file_def
        split: option.splits)
  from pnginfo_of_Inr [OF info] obtain xmp_data where
    built: "create_xmp_packet_app m = Inr xmp_data"
    and chunks: "chunks = png_chunks_for m xmp_data"
    by blast
  from save_png_Inr [OF save] obtain before between idat written image_written where
    enc: "encode_png lib img = Inr (before, between, idat)"
    and written: "putchunks (png_chunks_for m xmp_data) = Inr written"
    and image_written: "putchunks (image_chunks idat) = Inr image_written"
    and out: "png_data = before @ written @ between @ image_written"
    unfolding chunks by blast
  show ?thesis
    using data img enc built written image_written fs' out putchunks_png_chunks_for [OF written]
      putchunks_image_chunks [OF image_written]
    by blast
qed

text \<open>
  Claim C7, as the code has it. In both files, the bytes of a PNG embed that succeeds
  are the bytes that the encoder writes before the chunks of the caller, then exactly
  eleven chunks, then what the encoder writes between them and the image data, then
  the image data chunks and the end chunk. The eleven chunks are ten text chunks with
  the keywords Title, Description, Author, Copyright, Comment, Keywords, Headline,
  Credit, Source and Creation Time, in the order of the source, and one with the
  keyword \<open>XML:com.adobe.xmp\<close> that carries the packet. A chunk is a \<open>tEXt\<close> chunk
  with the data keyword, NUL, value when Latin-1 can encode the value, and an \<open>iTXt\<close>
  chunk with the value in UTF-8 otherwise. The reader of chunks reads the eleven chunks
  back from the bytes written, and the image data chunks from the bytes after them, so
  each chunk has the length of its data before it and the CRC-32 of its type and data
  after it. The embed succeeds when the image opens, the encoder accepts it, the
  values of the dictionary are strings without surrogates, and the data of each chunk
  is shorter than \<open>2\<^sup>3\<^sup>2\<close> bytes.
\<close>

theorem png_text_chunks:
  "map fst png_text_fields =
       [''Title'', ''Description'', ''Author'', ''Copyright'', ''Comment'', ''Keywords'',
        ''Headline'', ''Credit'', ''Source'', ''Creation Time'']
   \<and> (process_png_metadata lib image_data m = Inr out \<longrightarrow>
        (\<exists>img before between idat xmp_data written image_written.
           image_open lib image_data = Inr img
           \<and> encode_png lib img = Inr (before, between, idat)
           \<and> create_xmp_packet m = Inr xmp_data
           \<and> putchunks (png_chunks_for m xmp_data) = Inr written
           \<and> putchunks (image_chunks idat) = Inr image_written
           \<and> out = before @ written @ between @ image_written
           \<and> (\<forall>rest. read_chunks 11 (written @ rest) = Some (png_chunks_for m xmp_data, rest))
           \<and> read_chunks (length idat + 1) image_written = Some (image_chunks idat, [])))
   \<and> (write_metadata_to_png lib fs file_path output_path m = Inr (fs', True) \<longrightarrow>
        (\<exists>data img before between idat xmp_data written image_written.
           fs file_path = Some data \<and> image_open lib data = Inr img
           \<and> encode_png lib img = Inr (before, between, idat)
           \<and> create_xmp_packet_app m = Inr xmp_data
           \<and> putchunks (png_chunks_for m xmp_data) = Inr written
           \<and> putchunks (image_chunks idat) = Inr image_written
           \<and> fs' = fs(output_path \<mapsto> before @ written @ between @ image_written)
           \<and> (\<forall>rest. read_chunks 11 (written @ rest) = Some (png_chunks_for m xmp_data, rest))
           \<and> read_chunks (length idat + 1) image_written = Some (image_chunks idat, [])))
   \<and> ((\<forall>k v. m k = Some v \<longrightarrow> (\<exists>s. v = PyStr s))
        \<and> (packet = create_xmp_packet \<or> packet = create_xmp_packet_app)
        \<and> packet m = Inr packet_text
        \<and> (\<forall>v \<in> set (png_values m packet_text). \<forall>c \<in> set v. \<not> surrogate c)
        \<and> (\<forall>chunk \<in> set (png_chunks_for m packet_text). length (snd chunk) < 0x100000000)
      \<longrightarrow> pnginfo_of packet m = Inr (png_chunks_for m packet_text)
          \<and> (\<exists>written. putchunks (png_chunks_for m packet_text) = Inr written
               \<and> (\<forall>rest. read_chunks 11 (written @ rest)
                     = Some (png_chunks_for m packet_text, rest))
               \<and> (packet = create_xmp_packet \<and> image_open lib image_data = Inr opened
                     \<and> encode_png lib opened = Inr (lead, middle, image_data_parts)
                     \<and> putchunks (image_chunks image_data_parts) = Inr trail
                   \<longrightarrow> process_png_metadata lib image_data m
                         = Inr (lead @ written @ middle @ trail))
               \<and> (packet = create_xmp_packet_app \<and> fs file_path = Some image_data
                     \<and> image_open lib image_data = Inr opened
                     \<and> encode_png lib opened = Inr (lead, middle, image_data_parts)
                     \<and> putchunks (image_chunks image_data_parts) = Inr trail
                   \<longrightarrow> write_metadata_to_png lib fs file_path output_path m
                         = Inr (fs(output_path \<mapsto> lead @ written @ middle @ trail), True))))"
proof (intro conjI impI)
  show "map fst png_text_fields =
       [''Title'', ''Description'', ''Author'', ''Copyright'', ''Comment'', ''Keywords'',
        ''Headline'', ''Credit'', ''Source'', ''Creation Time'']"
    by (simp add: png_text_fields_def)
next
  assume "process_png_metadata lib image_data m = Inr out"
  then show "\<exists>img before between idat xmp_data written image_written.
           image_open lib image_data = Inr img
           \<and> encode_png lib img = Inr (before, between, idat)
           \<and> create_xmp_packet m = Inr xmp_data
           \<and> putchunks (png_chunks_for m xmp_data) = Inr written
           \<and> putchunks (image_chunks idat) = Inr image_written
           \<and> out = before @ written @ between @ image_written
           \<and> (\<forall>rest. read_chunks 11 (written @ rest) = Some (png_chunks_for m xmp_data, rest))
           \<and> read_chunks (length idat + 1) image_written = Some (image_chunks idat, [])"
    by (rule process_png_metadata_Inr)
next
  assume "write_metadata_to_png lib fs file_path output_path m = Inr (fs', True)"
  then show "\<exists>data img before between idat xmp_data written image_written.
           fs file_path = Some data \<and> image_open lib data = Inr img
           \<and> encode_png lib img = Inr (before, between, idat)
           \<and> create_xmp_packet_app m = Inr xmp_data
           \<and> putchunks (png_chunks_for m xmp_data) = Inr written
           \<and> putchunks (image_chunks idat) = Inr image_written
           \<and> fs' = fs(output_path \<mapsto> before @ written @ between @ image_written)
           \<and> (\<forall>rest. read_chunks 11 (written @ rest) = Some (png_chunks_for m xmp_data, rest))
           \<and> read_chunks (length idat + 1) image_written = Some (image_chunks idat, [])"
    by (rule write_metadata_to_png_True)
next
  assume a: "(\<forall>k v. m k = Some v \<longrightarrow> (\<exists>s. v = PyStr s))
        \<and> (packet = create_xmp_packet \<or> packet = create_xmp_packet_app)
        \<and> packet m = Inr packet_text
        \<and> (\<forall>v \<in> set (png_values m packet_text). \<forall>c \<in> set v. \<not> surrogate c)
        \<and> (\<forall>chunk \<in> set (png_chunks_for m packet_text). length (snd chunk) < 0x100000000)"
  note e = png_chunks_emitted [where m = m and packet = packet and xmp_data = packet_text
      and lib = lib and image_data = image_data and img = opened and before = lead
      and between = middle and idat = image_data_parts and image_written = trail
      and fs = fs and file_path = file_path and output_path = output_path]
  from a show "pnginfo_of packet m = Inr (png_chunks_for m packet_text)"
    using e by blast
  from a show "\<exists>written. putchunks (png_chunks_for m packet_text) = Inr written
               \<and> (\<forall>rest. read_chunks 11 (written @ rest)
                     = Some (png_chunks_for m packet_text, rest))
               \<and> (packet = create_xmp_packet \<and> image_open lib image_data = Inr opened
                     \<and> encode_png lib opened = Inr (lead, middle, image_data_parts)
                     \<and> putchunks (image_chunks image_data_parts) = Inr trail
                   \<longrightarrow> process_png_metadata lib image_data m
                         = Inr (lead @ written @ middle @ trail))
               \<and> (packet = create_xmp_packet_app \<and> fs file_path = Some image_data
                     \<and> image_open lib image_data = Inr opened
                     \<and> encode_png lib opened = Inr (lead, middle, image_data_parts)
                     \<and> putchunks (image_chunks image_data_parts) = Inr trail
                   \<longrightarrow> write_metadata_to_png lib fs file_path output_path m
                         = Inr (fs(output_path \<mapsto> lead @ written @ middle @ trail), True))"
    using e by blast
qed

lemma list_all_ascii_latin1:
  "list_all (\<lambda>c. c < 0x80) s \<Longrightarrow> list_all (\<lambda>c. c < 0x100) s" for s :: pystr
  by (induction s) auto

lemma list_all_ascii_no_surrogate:
  "list_all (\<lambda>c. c < 0x80) s \<Longrightarrow> \<forall>c \<in> set s. \<not> surrogate c"
  by (auto simp: list_all_iff surrogate_def)

lemma text_chunk_for_ascii:
  "list_all (\<lambda>c. c < 0x80) v \<Longrightarrow> text_chunk_for keyword v = text_chunk keyword (map of_nat v)"
  by (simp add: text_chunk_for_def list_all_ascii_latin1)

lemma png_chunks_for_ascii:
  assumes "\<forall>v \<in> set (png_values m xmp_data). list_all (\<lambda>c. c < 0x80) v"
  shows "png_chunks_for m xmp_data =
     map (\<lambda>(keyword, field, dflt). text_chunk keyword (map of_nat (format (get m field dflt))))
       png_text_fields
     @ [text_chunk ''XML:com.adobe.xmp'' (map of_nat xmp_data)]"
  using assms by (auto simp: png_chunks_for_def png_values_def text_chunk_for_ascii)

theorem png_text_chunks_witness:
  "pnginfo_of create_xmp_packet title_description_metadata = Inr title_description_chunks
   \<and> (\<exists>written image_written. putchunks title_description_chunks = Inr written
        \<and> putchunks (image_chunks [[0x49, 0x45]]) = Inr image_written
        \<and> read_chunks 11 (written @ image_written) = Some (title_description_chunks, image_written)
        \<and> read_chunks 2 image_written = Some (image_chunks [[0x49, 0x45]], [])
        \<and> process_png_metadata echo_library [0x49, 0x45] title_description_metadata
            = Inr ([0x89, 0x50, 0x4E, 0x47, 0x0D, 0x0A, 0x1A, 0x0A] @ written @ image_written))
   \<and> (\<exists>written image_written. putchunks (png_chunks_for Map.empty default_packet_app) = Inr written
        \<and> putchunks (image_chunks [[0x49, 0x45]]) = Inr image_written
        \<and> read_chunks 11 (written @ image_written)
            = Some (png_chunks_for Map.empty default_packet_app, image_written)
        \<and> read_chunks 2 image_written = Some (image_chunks [[0x49, 0x45]], [])
        \<and> write_metadata_to_png echo_library [ascii ''in.png'' \<mapsto> [0x49, 0x45]]
              (ascii ''in.png'') (ascii ''out.png'') Map.empty
            = Inr ([ascii ''in.png'' \<mapsto> [0x49, 0x45],
                    ascii ''out.png'' \<mapsto>
                      [0x89, 0x50, 0x4E, 0x47, 0x0D, 0x0A, 0x1A, 0x0A] @ written @ image_written],
                   True))"
proof -
  have g: "get title_description_metadata key dflt =
     (if key = ''xmp_description'' then PyStr (ascii ''Y'')
      else if key = ''xmp_title'' then PyStr (ascii ''X'') else PyStr (ascii dflt))" for key dflt
    by (simp add: title_description_metadata_def get_def ascii_eq_iff)
  have str: "\<forall>k v. title_description_metadata k = Some v \<longrightarrow> (\<exists>s. v = PyStr s)"
    by (simp add: title_description_metadata_def)
  have pk: "create_xmp_packet title_description_metadata = Inr title_description_packet"
    by (simp add: create_xmp_packet_def create_xmp_packet_with_def g title_description_packet_def
        keywords_of_def keywords_xml_of_def strip_def)
  have pa: "list_all (\<lambda>c. c < 0x80) title_description_packet"
    by (simp add: title_description_packet_def xmp_fstring_ascii lits_ascii) (simp add: ascii_def)
  have pl: "length title_description_packet = 2087"
    by (simp add: title_description_packet_def length_xmp_fstring lits_length)
       (simp add: ascii_def)
  have va: "\<forall>v \<in> set (png_values title_description_metadata title_description_packet).
      list_all (\<lambda>c. c < 0x80) v"
    by (simp add: png_values_def png_text_fields_def g pa) (simp add: ascii_def)
  have enc: "\<forall>v \<in> set (png_values title_description_metadata title_description_packet).
      \<forall>c \<in> set v. \<not> surrogate c"
    using va list_all_ascii_no_surrogate by blast
  have chunks: "png_chunks_for title_description_metadata title_description_packet
      = title_description_chunks"
    unfolding png_chunks_for_ascii [OF va]
    by (simp add: png_text_fields_def g map_of_nat_ascii text_chunk_def title_description_chunks_def)
  have size: "\<forall>chunk \<in> set (png_chunks_for title_description_metadata title_description_packet).
      length (snd chunk) < 0x100000000"
    unfolding chunks by (simp add: title_description_chunks_def pl ascii_bytes_def)
  have "\<forall>chunk \<in> set (image_chunks [[0x49, 0x45]]).
      length (fst chunk) = 4 \<and> length (snd chunk) < 0x100000000"
    by (simp add: image_chunks_def ascii_bytes_def)
  then obtain image_written where
    image_written: "putchunks (image_chunks [[0x49, 0x45]]) = Inr image_written"
    using putchunks_read_chunks by blast
  have reread: "read_chunks 2 image_written = Some (image_chunks [[0x49, 0x45]], [])"
  proof -
    have "read_chunks (length [[0x49, 0x45 :: byte]] + 1) image_written
        = Some (image_chunks [[0x49, 0x45]], [])"
      by (rule putchunks_image_chunks [OF image_written])
    moreover have "length [[0x49, 0x45 :: byte]] + 1 = 2"
      by simp
    ultimately show ?thesis
      by (simp only:)
  qed
  have pre: "(\<forall>k v. title_description_metadata k = Some v \<longrightarrow> (\<exists>s. v = PyStr s))
        \<and> (create_xmp_packet = create_xmp_packet \<or> create_xmp_packet = create_xmp_packet_app)
        \<and> create_xmp_packet title_description_metadata = Inr title_description_packet
        \<and> (\<forall>v \<in> set (png_values title_description_metadata title_description_packet).
              \<forall>c \<in> set v. \<not> surrogate c)
        \<and> (\<forall>chunk \<in> set (png_chunks_for title_description_metadata title_description_packet).
              length (snd chunk) < 0x100000000)"
    using str pk enc size by simp
  note index = png_text_chunks [where m = title_description_metadata
      and packet = create_xmp_packet and packet_text = title_description_packet
      and lib = echo_library and image_data = "[0x49, 0x45]" and opened = "[0x49, 0x45]"
      and lead = "[0x89, 0x50, 0x4E, 0x47, 0x0D, 0x0A, 0x1A, 0x0A]" and middle = "[]"
      and image_data_parts = "[[0x49, 0x45]]" and trail = image_written,
      THEN conjunct2, THEN conjunct2, THEN conjunct2, THEN mp, OF pre, unfolded chunks]
  have 1: "pnginfo_of create_xmp_packet title_description_metadata = Inr title_description_chunks"
    using index by simp
  have 2: "\<exists>written image_written. putchunks title_description_chunks = Inr written
        \<and> putchunks (image_chunks [[0x49, 0x45]]) = Inr image_written
        \<and> read_chunks 11 (written @ image_written) = Some (title_description_chunks, image_written)
        \<and> read_chunks 2 image_written = Some (image_chunks [[0x49, 0x45]], [])
        \<and> process_png_metadata echo_library [0x49, 0x45] title_description_metadata
            = Inr ([0x89, 0x50, 0x4E, 0x47, 0x0D, 0x0A, 0x1A, 0x0A] @ written @ image_written)"
    using index image_written reread by (simp add: echo_library_def) blast
  have str': "\<forall>k v. (Map.empty :: metadata) k = Some v \<longrightarrow> (\<exists>s. v = PyStr s)"
    by simp
  have va': "\<forall>v \<in> set (png_values Map.empty default_packet_app). list_all (\<lambda>c. c < 0x80) v"
    by (simp add: png_values_def png_text_fields_def get_empty default_packet_app_ascii)
       (simp add: ascii_def)
  have enc': "\<forall>v \<in> set (png_values Map.empty default_packet_app). \<forall>c \<in> set v. \<not> surrogate c"
    using va' list_all_ascii_no_surrogate by blast
  have size': "\<forall>chunk \<in> set (png_chunks_for Map.empty default_packet_app).
      length (snd chunk) < 0x100000000"
    unfolding png_chunks_for_ascii [OF va']
    by (simp add: png_text_fields_def get_empty text_chunk_def length_default_packet_app
        ascii_bytes_def ascii_def)
  have pre': "(\<forall>k v. (Map.empty :: metadata) k = Some v \<longrightarrow> (\<exists>s. v = PyStr s))
        \<and> (create_xmp_packet_app = create_xmp_packet \<or> create_xmp_packet_app = create_xmp_packet_app)
        \<and> create_xmp_packet_app Map.empty = Inr default_packet_app
        \<and> (\<forall>v \<in> set (png_values Map.empty default_packet_app). \<forall>c \<in> set v. \<not> surrogate c)
        \<and> (\<forall>chunk \<in> set (png_chunks_for Map.empty default_packet_app).
              length (snd chunk) < 0x100000000)"
    using str' create_xmp_packet_app_empty enc' size' by simp
  note app = png_text_chunks [where m = Map.empty
      and packet = create_xmp_packet_app and packet_text = default_packet_app
      and lib = echo_library and image_data = "[0x49, 0x45]" and opened = "[0x49, 0x45]"
      and fs = "[ascii ''in.png'' \<mapsto> [0x49, 0x45]]" and file_path = "ascii ''in.png''"
      and output_path = "ascii ''out.png''"
      and lead = "[0x89, 0x50, 0x4E, 0x47, 0x0D, 0x0A, 0x1A, 0x0A]" and middle = "[]"
      and image_data_parts = "[[0x49, 0x45]]" and trail = image_written,
      THEN conjunct2, THEN conjunct2, THEN conjunct2, THEN mp, OF pre']
  have 3: "\<exists>written image_written. putchunks (png_chunks_for Map.empty default_packet_app) = Inr written
        \<and> putchunks (image_chunks [[0x49, 0x45]]) = Inr image_written
        \<and> read_chunks 11 (written @ image_written)
            = Some (png_chunks_for Map.empty default_packet_app, image_written)
        \<and> read_chunks 2 image_written = Some (image_chunks [[0x49, 0x45]], [])
        \<and> write_metadata_to_png echo_library [ascii ''in.png'' \<mapsto> [0x49, 0x45]]
              (ascii ''in.png'') (ascii ''out.png'') Map.empty
            = Inr ([ascii ''in.png'' \<mapsto> [0x49, 0x45],
                    ascii ''out.png'' \<mapsto>
                      [0x89, 0x50, 0x4E, 0x47, 0x0D, 0x0A, 0x1A, 0x0A] @ written @ image_written],
                   True)"
    using app image_written reread by (simp add: echo_library_def) blast
  show ?thesis
    using 1 2 3 by blast
qed

text \<open>
  The claim as stated fails for a value that Latin-1 cannot encode: the chunk is then
  an \<open>iTXt\<close> chunk, and its data is not keyword, NUL, value. For a headline that is
  the character U+4E2D, the seventh of the chunks that are read back from the bytes
  written is such a chunk.
\<close>

theorem png_value_outside_latin1:
  "pnginfo_of create_xmp_packet [ascii ''iptc_headline'' \<mapsto> PyStr [0x4E2D]]
     = Inr [text_chunk ''Title'' [],
            text_chunk ''Description'' [],
            text_chunk ''Author'' (ascii_bytes ''GroundSwell''),
            text_chunk ''Copyright'' [],
            text_chunk ''Comment'' [],
            text_chunk ''Keywords'' [],
            itxt_chunk ''Headline'' [0xE4, 0xB8, 0xAD],
            text_chunk ''Credit'' (ascii_bytes ''GroundSwell''),
            text_chunk ''Source'' (ascii_bytes ''GroundSwell''),
            text_chunk ''Creation Time'' [],
            text_chunk ''XML:com.adobe.xmp'' (map of_nat default_packet)]
   \<and> itxt_chunk ''Headline'' [0xE4, 0xB8, 0xAD]
     = (ascii_bytes ''iTXt'',
        ascii_bytes ''Headline'' @ [0x00, 0x00, 0x00, 0x00, 0x00] @ [0xE4, 0xB8, 0xAD])
   \<and> (\<exists>written image_written chunks.
        process_png_metadata echo_library [0x49, 0x45]
            [ascii ''iptc_headline'' \<mapsto> PyStr [0x4E2D]]
          = Inr ([0x89, 0x50, 0x4E, 0x47, 0x0D, 0x0A, 0x1A, 0x0A] @ written @ image_written)
        \<and> read_chunks 11 (written @ image_written) = Some (chunks, image_written)
        \<and> chunks ! 6 = itxt_chunk ''Headline'' [0xE4, 0xB8, 0xAD])"
proof -
  define m :: metadata where "m = [ascii ''iptc_headline'' \<mapsto> PyStr [0x4E2D]]"
  have g: "get m key dflt = (if key = ''iptc_headline'' then PyStr [0x4E2D] else PyStr (ascii dflt))"
    for key dflt
    by (simp add: m_def get_def ascii_eq_iff)
  have pk: "create_xmp_packet m = Inr default_packet"
    by (simp add: create_xmp_packet_def create_xmp_packet_with_def g default_packet_def
        keywords_of_def keywords_xml_of_def strip_def)
  have x: "add_text chunks (ascii ''XML:com.adobe.xmp'') (PyStr default_packet)
      = Inr (chunks @ [text_chunk ''XML:com.adobe.xmp'' (map of_nat default_packet)])" for chunks
    by (rule add_text_latin1) (rule list_all_ascii_latin1 [OF default_packet_ascii])
  have t: "add_text chunks (ascii keyword) (PyStr (ascii s))
      = Inr (chunks @ [text_chunk keyword (ascii_bytes s)])" for chunks keyword s
    using add_text_latin1 [of "ascii s" chunks keyword]
    by (simp add: map_of_nat_ascii) (simp add: ascii_def list_all_iff)
  have h: "add_text chunks (ascii ''Headline'') (PyStr [0x4E2D])
      = Inr (chunks @ [itxt_chunk ''Headline'' [0xE4, 0xB8, 0xAD]])" for chunks
    by (rule add_text_not_latin1 [of _ UnicodeEncodeError]) (simp_all add: utf8_char_def)
  let ?chunks = "[text_chunk ''Title'' [],
            text_chunk ''Description'' [],
            text_chunk ''Author'' (ascii_bytes ''GroundSwell''),
            text_chunk ''Copyright'' [],
            text_chunk ''Comment'' [],
            text_chunk ''Keywords'' [],
            itxt_chunk ''Headline'' [0xE4, 0xB8, 0xAD],
            text_chunk ''Credit'' (ascii_bytes ''GroundSwell''),
            text_chunk ''Source'' (ascii_bytes ''GroundSwell''),
            text_chunk ''Creation Time'' [],
            text_chunk ''XML:com.adobe.xmp'' (map of_nat default_packet)]"
  have info: "pnginfo_of create_xmp_packet m = Inr ?chunks"
    using t [of _ _ "[]"]
    by (simp add: pnginfo_of_def png_text_fields_def g pk x t h ascii_bytes_def)
  have chunks: "png_chunks_for m default_packet = ?chunks"
    using pnginfo_of_Inr [OF info] pk by simp
  have str: "\<forall>k v. m k = Some v \<longrightarrow> (\<exists>s. v = PyStr s)"
    by (simp add: m_def)
  have "\<forall>v \<in> set (png_values m default_packet). \<forall>c \<in> set v. c < 0x80 \<or> c = 0x4E2D"
    using default_packet_ascii
    by (simp add: png_values_def png_text_fields_def g list_all_iff) (simp add: ascii_def)
  then have enc: "\<forall>v \<in> set (png_values m default_packet). \<forall>c \<in> set v. \<not> surrogate c"
    unfolding surrogate_def by fastforce
  have size: "\<forall>chunk \<in> set (png_chunks_for m default_packet). length (snd chunk) < 0x100000000"
    unfolding chunks
    by (simp add: text_chunk_def itxt_chunk_def length_default_packet ascii_bytes_def)
  have "\<forall>chunk \<in> set (image_chunks [[0x49, 0x45]]).
      length (fst chunk) = 4 \<and> length (snd chunk) < 0x100000000"
    by (simp add: image_chunks_def ascii_bytes_def)
  then obtain image_written where
    image_written: "putchunks (image_chunks [[0x49, 0x45]]) = Inr image_written"
    using putchunks_read_chunks by blast
  note e = png_chunks_emitted [where packet = create_xmp_packet and lib = echo_library
      and image_data = "[0x49, 0x45]" and img = "[0x49, 0x45]"
      and before = "[0x89, 0x50, 0x4E, 0x47, 0x0D, 0x0A, 0x1A, 0x0A]" and between = "[]"
      and idat = "[[0x49, 0x45]]" and image_written = image_written,
      OF str _ pk enc size, unfolded chunks]
  have emitted: "\<exists>written image_written chunks.
        process_png_metadata echo_library [0x49, 0x45] m
          = Inr ([0x89, 0x50, 0x4E, 0x47, 0x0D, 0x0A, 0x1A, 0x0A] @ written @ image_written)
        \<and> read_chunks 11 (written @ image_written) = Some (chunks, image_written)
        \<and> chunks ! 6 = itxt_chunk ''Headline'' [0xE4, 0xB8, 0xAD]"
    using e image_written by (simp add: echo_library_def) fastforce
  show ?thesis
    using info emitted by (simp add: m_def itxt_chunk_def)
qed

end
